theory Spec2Isabelle
  imports Main "HOL-Library.Word"
begin

section \<open>Branch-out automation for GitHub and Fabric: data model\<close>

text \<open>
  The script \<^verbatim>\<open>BranchOut-Feature-Workspace-Automation-GitHub.py\<close> is a sequence of
  HTTP calls. Its functions are embedded as state-passing functions: the state records
  how many HTTP requests were issued and every observable event (request, sleep, log
  line) in order. The providers are an input: the \<open>n\<close>-th request of a run is answered by
  the \<open>n\<close>-th entry of a script (\<open>http\<close>), which either raises or responds.
\<close>

subsection \<open>Python values\<close>

text \<open>
  The values the script handles are what \<^verbatim>\<open>response.json()\<close> yields and the strings
  and \<^verbatim>\<open>None\<close> of the command line. A Python \<^verbatim>\<open>float\<close> is kept as its 64 IEEE bits; a
  \<^verbatim>\<open>dict\<close> as an association list read with \<open>map_of\<close>; a \<^verbatim>\<open>str\<close> as a \<open>string\<close>, one
  \<open>char\<close> for each of its characters.
\<close>

datatype json =
    JNull
  | JBool bool
  | JInt int
  | JFloat "64 word"
  | JStr string
  | JArr "json list"
  | JObj "(string \<times> json) list"

text \<open>Python's truth value of an object, as \<^verbatim>\<open>if x\<close> and \<^verbatim>\<open>not x\<close> test it.\<close>

fun truthy :: "json \<Rightarrow> bool" where
  "truthy JNull = False"
| "truthy (JBool b) = b"
| "truthy (JInt n) = (n \<noteq> 0)"
| "truthy (JFloat w) = (push_bit 1 w \<noteq> 0)"
| "truthy (JStr s) = (s \<noteq> [])"
| "truthy (JArr xs) = (xs \<noteq> [])"
| "truthy (JObj kvs) = (kvs \<noteq> [])"

text \<open>
  An f-string is kept as its literal and interpolated parts: \<open>Fmt v\<close> stands for
  \<^verbatim>\<open>str(v)\<close>. A request payload is a dict whose leaves are values or f-strings.
\<close>

datatype fpart = Lit string | Fmt json

type_synonym fstring = "fpart list"

datatype payload = PVal json | PFmt fstring | PDict "(string \<times> payload) list"

datatype exn =
    RequestException string
  | HTTPError int
  | ValueError fstring
  | KeyError string
  | TypeError string
  | AttributeError string
  | OtherException string
  | SystemExit int

text \<open>\<^verbatim>\<open>except requests.exceptions.RequestException\<close>: \<^verbatim>\<open>HTTPError\<close> is a subclass.\<close>

fun is_RequestException :: "exn \<Rightarrow> bool" where
  "is_RequestException (RequestException m) = True"
| "is_RequestException (HTTPError c) = True"
| "is_RequestException e = False"

text \<open>\<^verbatim>\<open>except Exception\<close>: everything but \<^verbatim>\<open>SystemExit\<close>.\<close>

fun is_Exception :: "exn \<Rightarrow> bool" where
  "is_Exception (SystemExit c) = False"
| "is_Exception e = True"

text \<open>\<^verbatim>\<open>d.get(key)\<close>: only a dict has the method.\<close>

fun py_get :: "json \<Rightarrow> string \<Rightarrow> exn + json" where
  "py_get (JObj kvs) k = Inr (case map_of kvs k of None \<Rightarrow> JNull | Some v \<Rightarrow> v)"
| "py_get v k = Inl (AttributeError ''get'')"

text \<open>\<^verbatim>\<open>d[key]\<close> with a string key.\<close>

fun py_getitem :: "json \<Rightarrow> string \<Rightarrow> exn + json" where
  "py_getitem (JObj kvs) k = (case map_of kvs k of None \<Rightarrow> Inl (KeyError k) | Some v \<Rightarrow> Inr v)"
| "py_getitem v k = Inl (TypeError ''subscript'')"

text \<open>\<^verbatim>\<open>for c in x\<close>: the items a loop over \<open>x\<close> visits.\<close>

fun py_iter :: "json \<Rightarrow> exn + json list" where
  "py_iter (JArr xs) = Inr xs"
| "py_iter (JObj kvs) = Inr (map JStr (remdups (map fst kvs)))"
| "py_iter (JStr s) = Inr (map (\<lambda>c. JStr [c]) s)"
| "py_iter v = Inl (TypeError ''not iterable'')"

text \<open>\<^verbatim>\<open>s.rstrip("/")\<close>: every trailing slash goes.\<close>

definition rstrip_slash :: "string \<Rightarrow> string" where
  "rstrip_slash s = rev (dropWhile (\<lambda>c. c = CHR ''/'') (rev s))"

definition opt_str :: "string option \<Rightarrow> json" where
  "opt_str x = (case x of None \<Rightarrow> JNull | Some s \<Rightarrow> JStr s)"

subsection \<open>HTTP responses, events and the state of a run\<close>

text \<open>
  A response is what the script reads of it: \<^verbatim>\<open>status_code\<close>, \<^verbatim>\<open>text\<close>, the outcome of
  \<^verbatim>\<open>json()\<close> (a value, or the exception the library raises on a body that does not
  parse) and \<^verbatim>\<open>headers.get("Location")\<close>.
\<close>

record response =
  status_code :: int
  resp_text :: string
  json_result :: "exn + json"
  location :: "string option"

text \<open>\<^verbatim>\<open>response.raise_for_status()\<close> of the requests library: 4xx and 5xx raise.\<close>

definition raise_for_status :: "response \<Rightarrow> exn + unit" where
  "raise_for_status r =
     (if 400 \<le> status_code r \<and> status_code r < 600 then Inl (HTTPError (status_code r))
      else Inr ())"

datatype level = INFO | ERROR

datatype logarg = V json | E exn | Dumps json

type_synonym headers = "(string \<times> fstring) list"

datatype event =
    Log level string "logarg list"
  | Get fstring headers
  | Post fstring headers "payload option"
  | Sleep nat
  | AcquireToken fstring json json json

record state =
  clock :: nat
  events :: "event list"

type_synonym world = "nat \<Rightarrow> exn + response"

definition emit :: "event \<Rightarrow> state \<Rightarrow> state" where
  "emit e s = s\<lparr>events := events s @ [e]\<rparr>"

definition logging_info :: "string \<Rightarrow> logarg list \<Rightarrow> state \<Rightarrow> state" where
  "logging_info msg args s = emit (Log INFO msg args) s"

definition logging_error :: "string \<Rightarrow> logarg list \<Rightarrow> state \<Rightarrow> state" where
  "logging_error msg args s = emit (Log ERROR msg args) s"

definition time_sleep :: "nat \<Rightarrow> state \<Rightarrow> state" where
  "time_sleep n s = emit (Sleep n) s"

definition requests_get :: "world \<Rightarrow> fstring \<Rightarrow> headers \<Rightarrow> state \<Rightarrow> (exn + response) \<times> state" where
  "requests_get http url hdrs s =
     (http (clock s), emit (Get url hdrs) (s\<lparr>clock := Suc (clock s)\<rparr>))"

definition requests_post ::
  "world \<Rightarrow> fstring \<Rightarrow> headers \<Rightarrow> payload option \<Rightarrow> state \<Rightarrow> (exn + response) \<times> state" where
  "requests_post http url hdrs body s =
     (http (clock s), emit (Post url hdrs body) (s\<lparr>clock := Suc (clock s)\<rparr>))"

text \<open>
  \<^verbatim>\<open>try: ... except requests.exceptions.RequestException as e: ...\<close> around a body
  that has already run: a request exception goes to the handler, any other propagates.
\<close>

definition except_RequestException ::
  "(exn + 'a) \<times> state \<Rightarrow> (exn \<Rightarrow> state \<Rightarrow> (exn + 'a) \<times> state) \<Rightarrow> (exn + 'a) \<times> state" where
  "except_RequestException r handler =
     (case r of
        (Inl e, s) \<Rightarrow> if is_RequestException e then handler e s else (Inl e, s)
      | (Inr v, s) \<Rightarrow> (Inr v, s))"

definition FABRIC_API_URL :: string where
  "FABRIC_API_URL = ''https://api.fabric.microsoft.com/v1''"

section \<open>Auth helpers\<close>

text \<open>
  The identity library is an input too: \<open>msal\<close> is what building the client and
  \<^verbatim>\<open>acquire_token_by_username_password\<close> give, an exception or the result dict.
\<close>

type_synonym msal = "exn + (string \<times> json) list"

definition acquire_token_user_id_password ::
  "msal \<Rightarrow> string option \<Rightarrow> string option \<Rightarrow> string option \<Rightarrow> string option \<Rightarrow> state
     \<Rightarrow> (exn + json) \<times> state" where
  "acquire_token_user_id_password msal tenant_id client_id user_name password s =
     (let authority = [Lit ''https://login.microsoftonline.com/'', Fmt (opt_str tenant_id)];
          s1 = emit (AcquireToken authority (opt_str client_id) (opt_str user_name)
                       (opt_str password)) s in
      case msal of
        Inl e \<Rightarrow> (Inl e, s1)
      | Inr result \<Rightarrow>
          (case map_of result ''access_token'' of
             Some access_token \<Rightarrow> (Inr access_token, s1)
           | None \<Rightarrow>
               (Inr JNull,
                logging_error ''Error: Fabric token could not be obtained: %s''
                  [V (JObj result)] s1)))"

section \<open>Fabric helpers\<close>

definition workspace_already_exists :: exn where
  "workspace_already_exists =
     ValueError [Lit ''Fabric workspace already exists. Please specify a new workspace as target.'']"

definition create_fabric_workspace ::
  "world \<Rightarrow> string \<Rightarrow> string \<Rightarrow> json \<Rightarrow> state \<Rightarrow> (exn + json) \<times> state" where
  "create_fabric_workspace http workspace_name cpty_id token s =
     except_RequestException
       (let s1 = logging_info ''Creating Fabric Workspace %s...'' [V (JStr workspace_name)] s;
            hdrs = [(''Authorization'', [Lit ''Bearer '', Fmt token])];
            data = PDict [(''displayName'', PVal (JStr workspace_name)),
                          (''capacityId'', PVal (JStr cpty_id))] in
        case requests_post http [Lit FABRIC_API_URL, Lit ''/workspaces''] hdrs (Some data) s1 of
          (Inl e, s2) \<Rightarrow> (Inl e, s2)
        | (Inr response, s2) \<Rightarrow>
            (let s3 = logging_info ''Fabric workspace create response: %s - %s''
                        [V (JInt (status_code response)), V (JStr (resp_text response))] s2 in
             if status_code response = 409 then
               (Inl workspace_already_exists,
                logging_error ''Workspace '%s' already exists.'' [V (JStr workspace_name)] s3)
             else if status_code response = 201 then
               (case json_result response of
                  Inl e \<Rightarrow> (Inl e, s3)
                | Inr j \<Rightarrow>
                    (case py_get j ''id'' of
                       Inl e \<Rightarrow> (Inl e, s3)
                     | Inr workspace_id \<Rightarrow>
                         (Inr workspace_id,
                          logging_info ''Fabric Workspace %s created with ID: %s''
                            [V (JStr workspace_name), V workspace_id] s3)))
             else
               (Inr JNull,
                logging_error ''Could not create workspace. Error: %s''
                  [V (JStr (resp_text response))] s3)))
       (\<lambda>e s'. (Inr JNull, logging_error ''Error creating workspace: %s'' [E e] s'))"

definition add_workspace_admins ::
  "world \<Rightarrow> json \<Rightarrow> string \<Rightarrow> json \<Rightarrow> state \<Rightarrow> (exn + unit) \<times> state" where
  "add_workspace_admins http workspace_id developer token s =
     except_RequestException
       (let s1 = logging_info ''Adding developer %s to workspace %s as Admin''
                   [V (JStr developer), V workspace_id] s;
            hdrs = [(''Authorization'', [Lit ''Bearer '', Fmt token])];
            data = PDict [(''emailAddress'', PVal (JStr developer)),
                          (''groupUserAccessRight'', PVal (JStr ''Admin''))] in
        case requests_post http
               [Lit ''https://api.powerbi.com/v1.0/myorg/admin/groups/'', Fmt workspace_id,
                Lit ''/users''] hdrs (Some data) s1 of
          (Inl e, s2) \<Rightarrow> (Inl e, s2)
        | (Inr response, s2) \<Rightarrow>
            (case raise_for_status response of
               Inl e \<Rightarrow> (Inl e, s2)
             | Inr u \<Rightarrow> (Inr (), logging_info ''Admin added'' [] s2)))
       (\<lambda>e s'. (Inr (), logging_error ''Error adding workspace admin: %s'' [E e] s'))"

section \<open>GitHub helpers\<close>

definition apostrophe :: string where
  "apostrophe = [CHR 0x27]"

definition github_headers :: "string \<Rightarrow> headers" where
  "github_headers token =
     [(''Authorization'', [Lit ''Bearer '', Lit token]),
      (''Accept'', [Lit ''application/vnd.github+json'']),
      (''Content-Type'', [Lit ''application/json''])]"

text \<open>The URL of a branch's reference; \<open>api\<close> is the global \<^verbatim>\<open>GH_API_URL\<close>.\<close>

definition ref_url :: "string \<Rightarrow> string \<Rightarrow> string \<Rightarrow> json \<Rightarrow> fstring" where
  "ref_url api owner repo_name branch_name =
     [Lit api, Lit ''/repos/'', Lit owner, Lit ''/'', Lit repo_name, Lit ''/git/ref/heads/'',
      Fmt branch_name]"

definition get_github_branch_sha ::
  "world \<Rightarrow> string \<Rightarrow> string \<Rightarrow> string \<Rightarrow> string \<Rightarrow> string \<Rightarrow> state \<Rightarrow> (exn + json) \<times> state" where
  "get_github_branch_sha http api owner repo_name branch_name token s =
     except_RequestException
       (let s1 = logging_info (''Retrieving SHA for branch '' @ apostrophe @ ''%s'' @ apostrophe)
                   [V (JStr branch_name)] s in
        case requests_get http (ref_url api owner repo_name (JStr branch_name))
               (github_headers token) s1 of
          (Inl e, s2) \<Rightarrow> (Inl e, s2)
        | (Inr response, s2) \<Rightarrow>
            (case raise_for_status response of
               Inl e \<Rightarrow> (Inl e, s2)
             | Inr u \<Rightarrow>
                 (case json_result response of
                    Inl e \<Rightarrow> (Inl e, s2)
                  | Inr j \<Rightarrow>
                      (case py_getitem j ''object'' of
                         Inl e \<Rightarrow> (Inl e, s2)
                       | Inr obj \<Rightarrow>
                           (case py_getitem obj ''sha'' of
                              Inl e \<Rightarrow> (Inl e, s2)
                            | Inr sha \<Rightarrow>
                                (Inr sha,
                                 logging_info ''Found base SHA %s for branch %s''
                                   [V sha, V (JStr branch_name)] s2))))))
       (\<lambda>e s'. (Inr JNull, logging_error ''Error getting GitHub branch SHA: %s'' [E e] s'))"

definition branch_exists ::
  "world \<Rightarrow> string \<Rightarrow> string \<Rightarrow> string \<Rightarrow> string option \<Rightarrow> string \<Rightarrow> state
     \<Rightarrow> (exn + bool) \<times> state" where
  "branch_exists http api owner repo_name branch_name token s =
     except_RequestException
       (case requests_get http (ref_url api owner repo_name (opt_str branch_name))
               (github_headers token) s of
          (Inl e, s1) \<Rightarrow> (Inl e, s1)
        | (Inr response, s1) \<Rightarrow> (Inr (status_code response = 200), s1))
       (\<lambda>e s'. (Inr False, s'))"

definition base_branch_not_found :: "string \<Rightarrow> string \<Rightarrow> string \<Rightarrow> exn" where
  "base_branch_not_found main_branch owner repo_name =
     ValueError [Lit (''Could not find base branch '' @ apostrophe), Lit main_branch,
                 Lit (apostrophe @ '' in repo '' @ apostrophe), Lit owner, Lit ''/'',
                 Lit repo_name, Lit (apostrophe @ ''.'')]"

definition create_github_branch ::
  "world \<Rightarrow> string \<Rightarrow> string \<Rightarrow> string \<Rightarrow> string \<Rightarrow> string option \<Rightarrow> string \<Rightarrow> state
     \<Rightarrow> (exn + unit) \<times> state" where
  "create_github_branch http api owner repo_name main_branch new_branch token s =
     (if token = [] then
        (Inl (ValueError [Lit ''GitHub PAT token is required to create branches.'']), s)
      else
        case branch_exists http api owner repo_name new_branch token s of
          (Inl e, s1) \<Rightarrow> (Inl e, s1)
        | (Inr True, s1) \<Rightarrow>
            (Inr (),
             logging_info ''GitHub branch '%s' already exists, skipping creation''
               [V (opt_str new_branch)] s1)
        | (Inr False, s1) \<Rightarrow>
            (case get_github_branch_sha http api owner repo_name main_branch token s1 of
               (Inl e, s2) \<Rightarrow> (Inl e, s2)
             | (Inr base_sha, s2) \<Rightarrow>
                 if \<not> truthy base_sha then
                   (Inl (base_branch_not_found main_branch owner repo_name), s2)
                 else
                   except_RequestException
                     (let s3 = logging_info ''Creating GitHub branch '%s' from '%s'...''
                                 [V (opt_str new_branch), V (JStr main_branch)] s2;
                          payload = PDict [(''ref'', PFmt [Lit ''refs/heads/'', Fmt (opt_str new_branch)]),
                                           (''sha'', PVal base_sha)] in
                      case requests_post http
                             [Lit api, Lit ''/repos/'', Lit owner, Lit ''/'', Lit repo_name,
                              Lit ''/git/refs''] (github_headers token) (Some payload) s3 of
                        (Inl e, s4) \<Rightarrow> (Inl e, s4)
                      | (Inr response, s4) \<Rightarrow>
                          (case raise_for_status response of
                             Inl e \<Rightarrow> (Inl e, s4)
                           | Inr u \<Rightarrow>
                               (Inr (),
                                logging_info ''GitHub branch '%s' created''
                                  [V (opt_str new_branch)] s4)))
                     (\<lambda>e s'. (Inl e, logging_error ''Error creating GitHub branch: %s'' [E e] s'))))"

section \<open>Fabric connection helpers\<close>

definition fabric_headers :: "json \<Rightarrow> headers" where
  "fabric_headers token =
     [(''Authorization'', [Lit ''Bearer '', Fmt token]),
      (''Content-Type'', [Lit ''application/json''])]"

definition list_connections :: "world \<Rightarrow> json \<Rightarrow> state \<Rightarrow> (exn + json) \<times> state" where
  "list_connections http token s =
     except_RequestException
       (case requests_get http [Lit FABRIC_API_URL, Lit ''/connections''] (fabric_headers token) s of
          (Inl e, s1) \<Rightarrow> (Inl e, s1)
        | (Inr resp, s1) \<Rightarrow>
            (case raise_for_status resp of
               Inl e \<Rightarrow> (Inl e, s1)
             | Inr u \<Rightarrow>
                 (case json_result resp of
                    Inl e \<Rightarrow> (Inl e, s1)
                  | Inr data \<Rightarrow>
                      (case data of
                         JObj kvs \<Rightarrow>
                           (case map_of kvs ''value'' of
                              Some v \<Rightarrow> (Inr v, s1)
                            | None \<Rightarrow> (Inr (JArr []), s1))
                       | JArr xs \<Rightarrow> (Inr (JArr xs), s1)
                       | _ \<Rightarrow> (Inr (JArr []), s1)))))
       (\<lambda>e s'. (Inr (JArr []), logging_error ''Error listing Fabric connections: %s'' [E e] s'))"

text \<open>
  The \<^verbatim>\<open>for c in connections\<close> loop of \<^verbatim>\<open>get_or_create_github_pat_connection\<close>:
  \<open>Some cid\<close> is its \<^verbatim>\<open>return cid\<close>, \<open>None\<close> is the loop running to its end.
\<close>

fun find_connection :: "json list \<Rightarrow> string \<Rightarrow> state \<Rightarrow> (exn + json option) \<times> state" where
  "find_connection [] connection_name s = (Inr None, s)"
| "find_connection (c # cs) connection_name s =
     (case py_get c ''displayName'' of
        Inl e \<Rightarrow> (Inl e, s)
      | Inr display_name \<Rightarrow>
          if display_name = JStr connection_name then
            (case py_get c ''id'' of
               Inl e \<Rightarrow> (Inl e, s)
             | Inr cid \<Rightarrow>
                 if truthy cid then
                   (Inr (Some cid),
                    logging_info ''Found existing GitHub connection '%s' with ID: %s''
                      [V (JStr connection_name), V cid] s)
                 else find_connection cs connection_name s)
          else find_connection cs connection_name s)"

definition connection_body :: "string \<Rightarrow> string \<Rightarrow> payload" where
  "connection_body connection_name pat_token =
     PDict [(''connectivityType'', PVal (JStr ''ShareableCloud'')),
            (''displayName'', PVal (JStr connection_name)),
            (''connectionDetails'',
               PDict [(''type'', PVal (JStr ''GitHubSourceControl'')),
                      (''creationMethod'', PVal (JStr ''GitHubSourceControl.Contents''))]),
            (''credentialDetails'',
               PDict [(''credentials'',
                  PDict [(''credentialType'', PVal (JStr ''Key'')),
                         (''key'', PVal (JStr pat_token))])])]"

definition get_or_create_github_pat_connection ::
  "world \<Rightarrow> string \<Rightarrow> string \<Rightarrow> json \<Rightarrow> state \<Rightarrow> (exn + json) \<times> state" where
  "get_or_create_github_pat_connection http connection_name pat_token token s =
     (if pat_token = [] then
        (Inr JNull,
         logging_error ''GitHub PAT token is required to create or use a GitHub connection.'' [] s)
      else
        case list_connections http token s of
          (Inl e, s1) \<Rightarrow> (Inl e, s1)
        | (Inr connections, s1) \<Rightarrow>
            (case py_iter connections of
               Inl e \<Rightarrow> (Inl e, s1)
             | Inr cs \<Rightarrow>
                 (case find_connection cs connection_name s1 of
                    (Inl e, s2) \<Rightarrow> (Inl e, s2)
                  | (Inr (Some cid), s2) \<Rightarrow> (Inr cid, s2)
                  | (Inr None, s2) \<Rightarrow>
                      except_RequestException
                        (let s3 = logging_info ''Creating GitHub PAT connection '%s'...''
                                    [V (JStr connection_name)] s2 in
                         case requests_post http [Lit FABRIC_API_URL, Lit ''/connections'']
                                (fabric_headers token)
                                (Some (connection_body connection_name pat_token)) s3 of
                           (Inl e, s4) \<Rightarrow> (Inl e, s4)
                         | (Inr resp, s4) \<Rightarrow>
                             if status_code resp = 201 then
                               (case json_result resp of
                                  Inl e \<Rightarrow> (Inl e, s4)
                                | Inr j \<Rightarrow>
                                    (case py_get j ''id'' of
                                       Inl e \<Rightarrow> (Inl e, s4)
                                     | Inr cid \<Rightarrow>
                                         (Inr cid,
                                          logging_info ''GitHub connection created with ID: %s''
                                            [V cid] s4)))
                             else
                               (Inr JNull,
                                logging_error
                                  ''Failed to create GitHub connection. Status: %s - %s''
                                  [V (JInt (status_code resp)), V (JStr (resp_text resp))] s4))
                        (\<lambda>e s'. (Inr JNull,
                                  logging_error ''Error creating GitHub connection: %s'' [E e] s')))))"

text \<open>
  Line 241, the folder normalization:
  \<^verbatim>\<open>git_folder.rstrip("/") if git_folder and git_folder not in ("/", "\\") else ""\<close>
\<close>

definition directory_name :: "string \<Rightarrow> string" where
  "directory_name git_folder =
     (if git_folder \<noteq> [] \<and> git_folder \<noteq> ''/'' \<and> git_folder \<noteq> [CHR 0x5C]
      then rstrip_slash git_folder else [])"

text \<open>
  \<^verbatim>\<open>connect_branch_to_workspace\<close>; \<open>gh_pat_token\<close> is the global \<^verbatim>\<open>GH_PAT_TOKEN\<close> that it
  reads.
\<close>

definition connect_branch_to_workspace ::
  "world \<Rightarrow> string \<Rightarrow> json \<Rightarrow> string \<Rightarrow> string \<Rightarrow> string option \<Rightarrow> string \<Rightarrow> json \<Rightarrow> state
     \<Rightarrow> (exn + unit) \<times> state" where
  "connect_branch_to_workspace http gh_pat_token workspace_id org_name repo_name branch_name
       git_folder token s =
     except_RequestException
       (let s1 = logging_info ''Connecting workspace %s to GitHub branch %s at folder %s''
                   [V workspace_id, V (opt_str branch_name), V (JStr git_folder)] s;
            hdrs = fabric_headers token;
            connection_display_name = ''GitHub PAT - '' @ org_name @ ''/'' @ repo_name in
        case get_or_create_github_pat_connection http connection_display_name gh_pat_token
               token s1 of
          (Inl e, s2) \<Rightarrow> (Inl e, s2)
        | (Inr connection_id, s2) \<Rightarrow>
            if \<not> truthy connection_id then
              (Inl (ValueError [Lit ''Could not obtain/create GitHub credentials connection.'']),
               logging_error
                 ''Failed to acquire GitHub credentials connection. Aborting connect.'' [] s2)
            else
              (let data = PDict
                     [(''gitProviderDetails'',
                         PDict [(''ownerName'', PVal (JStr org_name)),
                                (''gitProviderType'', PVal (JStr ''GitHub'')),
                                (''repositoryName'', PVal (JStr repo_name)),
                                (''branchName'', PVal (opt_str branch_name)),
                                (''directoryName'', PVal (JStr (directory_name git_folder)))]),
                      (''myGitCredentials'',
                         PDict [(''source'', PVal (JStr ''ConfiguredConnection'')),
                                (''connectionId'', PVal connection_id)])] in
               case requests_post http
                      [Lit FABRIC_API_URL, Lit ''/workspaces/'', Fmt workspace_id,
                       Lit ''/git/connect''] hdrs (Some data) s2 of
                 (Inl e, s3) \<Rightarrow> (Inl e, s3)
               | (Inr response, s3) \<Rightarrow>
                   if status_code response \<noteq> 200 then
                     (let s4 = logging_error ''Git connect failed: %s - %s''
                                 [V (JInt (status_code response)), V (JStr (resp_text response))]
                                 s3 in
                      case raise_for_status response of
                        Inl e \<Rightarrow> (Inl e, s4)
                      | Inr u \<Rightarrow>
                          (Inr (), logging_info ''Workspace connected to GitHub branch'' [] s4))
                   else (Inr (), logging_info ''Workspace connected to GitHub branch'' [] s3)))
       (\<lambda>e s'. (Inl e, logging_error ''Error connecting branch to workspace: %s'' [E e] s'))"

section \<open>Git initialization helpers\<close>

text \<open>
  The \<^verbatim>\<open>while keep_polling\<close> loop of \<^verbatim>\<open>long_running_operation_polling\<close>. It has no
  bound, so it is a partial function: \<open>None\<close> is a loop that never ends. It ends with
  the last \<^verbatim>\<open>operation_state\<close>, or with the exception raised inside it. The retry
  interval is a number of seconds, a \<open>nat\<close>: \<^verbatim>\<open>time.sleep\<close> takes no negative interval,
  and the script's one call passes 15.
\<close>

partial_function (option) polling_loop ::
  "world \<Rightarrow> json \<Rightarrow> nat \<Rightarrow> headers \<Rightarrow> state \<Rightarrow> ((exn + json) \<times> state) option" where
  "polling_loop http uri retry_after hdrs s =
     (case requests_get http [Fmt uri] hdrs s of
        (Inl e, s1) \<Rightarrow> Some (Inl e, s1)
      | (Inr response, s1) \<Rightarrow>
          (case json_result response of
             Inl e \<Rightarrow> Some (Inl e, s1)
           | Inr operation_state \<Rightarrow>
               (let s2 = logging_info ''operation state = %s'' [V operation_state] s1 in
                case py_getitem operation_state ''status'' of
                  Inl e \<Rightarrow> Some (Inl e, s2)
                | Inr status \<Rightarrow>
                    (let s3 = logging_info ''Long running operation status: %s'' [V status] s2 in
                     if status = JStr ''NotStarted'' \<or> status = JStr ''Running''
                     then polling_loop http uri retry_after hdrs (time_sleep retry_after s3)
                     else Some (Inr operation_state, s3)))))"

text \<open>\<^verbatim>\<open>operation_state.get('Error', {})\<close>\<close>

definition get_Error :: "json \<Rightarrow> exn + json" where
  "get_Error operation_state =
     (case operation_state of
        JObj kvs \<Rightarrow> Inr (case map_of kvs ''Error'' of None \<Rightarrow> JObj [] | Some v \<Rightarrow> v)
      | _ \<Rightarrow> Inl (AttributeError ''get''))"

text \<open>The statements after the loop, still inside the \<^verbatim>\<open>try\<close>.\<close>

definition polling_result :: "json \<Rightarrow> state \<Rightarrow> (exn + json) \<times> state" where
  "polling_result operation_state s =
     (case py_getitem operation_state ''status'' of
        Inl e \<Rightarrow> (Inl e, s)
      | Inr status \<Rightarrow>
          if status = JStr ''Failed'' then
            (case get_Error operation_state of
               Inl e \<Rightarrow> (Inl e, s)
             | Inr err \<Rightarrow>
                 (Inr JNull,
                  logging_info ''The long running operation failed. Error response: %s''
                    [Dumps err] s))
          else
            (Inr status,
             logging_info ''The long running operation has been successfully completed.'' [] s))"

text \<open>\<^verbatim>\<open>except Exception as e\<close>: logged, and the function falls off its end (\<^verbatim>\<open>None\<close>).\<close>

definition except_Exception_polling :: "(exn + json) \<times> state \<Rightarrow> (exn + json) \<times> state" where
  "except_Exception_polling r =
     (case r of
        (Inl e, s) \<Rightarrow>
          if is_Exception e
          then (Inr JNull,
                logging_error ''The long running operation failed with error: %s'' [E e] s)
          else (Inl e, s)
      | (Inr v, s) \<Rightarrow> (Inr v, s))"

definition long_running_operation_polling ::
  "world \<Rightarrow> json \<Rightarrow> nat \<Rightarrow> headers \<Rightarrow> state \<Rightarrow> ((exn + json) \<times> state) option" where
  "long_running_operation_polling http uri retry_after hdrs s =
     (let s0 = logging_info
                 ''Polling long running operation ID %s started with retry-after %s seconds.''
                 [V uri, V (JInt (int retry_after))] s in
      case polling_loop http uri retry_after hdrs s0 of
        None \<Rightarrow> None
      | Some (Inl e, s1) \<Rightarrow> Some (except_Exception_polling (Inl e, s1))
      | Some (Inr operation_state, s1) \<Rightarrow>
          Some (except_Exception_polling (polling_result operation_state s1)))"

text \<open>
  \<^verbatim>\<open>initialize_workspace_from_git\<close>; the globals \<^verbatim>\<open>GH_NEW_BRANCH\<close> and
  \<^verbatim>\<open>WORKSPACE_NAME\<close> it logs are parameters. \<open>update_from_git\<close> is its branch for an
  immediate success of the initialize request.
\<close>

definition update_from_git ::
  "world \<Rightarrow> string option \<Rightarrow> string \<Rightarrow> json \<Rightarrow> headers \<Rightarrow> json \<Rightarrow> state
     \<Rightarrow> ((exn + unit) \<times> state) option" where
  "update_from_git http gh_new_branch workspace_name workspace_id hdrs git_status s =
     (case py_get git_status ''remoteCommitHash'' of
        Inl e \<Rightarrow> Some (Inl e, s)
      | Inr remote_commit_hash \<Rightarrow>
          (case py_get git_status ''workspaceHead'' of
             Inl e \<Rightarrow> Some (Inl e, s)
           | Inr workspace_head \<Rightarrow>
               (let update_params = PDict
                      [(''workspaceHead'', PVal workspace_head),
                       (''remoteCommitHash'', PVal remote_commit_hash),
                       (''options'',
                          PDict [(''allowOverrideItems'', PVal (JBool True)),
                                 (''conflictResolution'', PVal (JStr ''RemoteSync''))])];
                    update_url = [Lit FABRIC_API_URL, Lit ''/workspaces/'', Fmt workspace_id,
                                  Lit ''/git/updateFromGit''] in
                case requests_post http update_url hdrs (Some update_params) s of
                  (Inl e, s1) \<Rightarrow> Some (Inl e, s1)
                | (Inr update_response, s1) \<Rightarrow>
                    if status_code update_response = 200 then
                      Some (Inr (),
                            logging_info ''Feature workspace %s is synchronizing with branch %s''
                              [V (JStr workspace_name), V (opt_str gh_new_branch)] s1)
                    else if status_code update_response = 202 then
                      (let s2 = logging_info
                                  ''Request accepted, update workspace is in progress...'' [] s1;
                           location_url = opt_str (location update_response);
                           s3 = logging_info ''Polling URL to track operation status is %s''
                                  [V location_url] s2;
                           s4 = time_sleep 15 s3 in
                       case long_running_operation_polling http location_url 15 hdrs s4 of
                         None \<Rightarrow> None
                       | Some (Inl e, s5) \<Rightarrow> Some (Inl e, s5)
                       | Some (Inr v, s5) \<Rightarrow> Some (Inr (), s5))
                    else
                      Some (Inr (),
                            logging_error ''Failed to update the workspace. Status Code: %s - %s''
                              [V (JInt (status_code update_response)),
                               V (JStr (resp_text update_response))] s1))))"

definition initialize_workspace_from_git ::
  "world \<Rightarrow> string option \<Rightarrow> string \<Rightarrow> json \<Rightarrow> json \<Rightarrow> state \<Rightarrow> ((exn + unit) \<times> state) option" where
  "initialize_workspace_from_git http gh_new_branch workspace_name workspace_id token s =
     map_option
       (\<lambda>r. except_RequestException r
          (\<lambda>e s'. (Inr (),
                    logging_error ''An error occurred during workspace initialization: %s''
                      [E e] s')))
       (let s1 = logging_info ''Initializing workspace %s to Git branch %s ...''
                   [V workspace_id, V (opt_str gh_new_branch)] s;
            hdrs = [(''Authorization'', [Lit ''Bearer '', Fmt token])];
            git_initialize_url = [Lit FABRIC_API_URL, Lit ''/workspaces/'', Fmt workspace_id,
                                  Lit ''/git/initializeConnection''] in
        case requests_post http git_initialize_url hdrs None s1 of
          (Inl e, s2) \<Rightarrow> Some (Inl e, s2)
        | (Inr response, s2) \<Rightarrow>
            if status_code response = 200 then
              (case json_result response of
                 Inl e \<Rightarrow> Some (Inl e, s2)
               | Inr git_status \<Rightarrow>
                   update_from_git http gh_new_branch workspace_name workspace_id hdrs
                     git_status s2)
            else if status_code response = 202 then
              Some (Inr (),
                    logging_info
                      ''Request accepted, get initialize in progress. Retry after some time'' []
                      s2)
            else
              Some (Inr (),
                    logging_info ''Failed to Git initialize. Status Code: %s''
                      [V (JInt (status_code response))] s2))"

section \<open>CLI argument binding\<close>

text \<open>The module's globals, with the defaults of lines 16 to 32.\<close>

record globals =
  GH_API_URL :: string
  CAPACITY_ID :: string
  WORKSPACE_NAME :: string
  DEVELOPER :: string
  GH_MAIN_BRANCH :: string
  GH_NEW_BRANCH :: "string option"
  GH_GIT_FOLDER :: string
  GH_OWNER :: string
  GH_REPO_NAME :: string
  CLIENT_ID :: "string option"
  CLIENT_SECRET :: string
  TENANT_ID :: "string option"
  USERNAME :: "string option"
  PASSWORD :: "string option"
  FABRIC_TOKEN :: string
  GH_PAT_TOKEN :: string

definition initial_globals :: globals where
  "initial_globals =
     \<lparr>GH_API_URL = ''https://api.github.com'', CAPACITY_ID = [], WORKSPACE_NAME = [],
      DEVELOPER = [], GH_MAIN_BRANCH = [], GH_NEW_BRANCH = Some [], GH_GIT_FOLDER = [],
      GH_OWNER = [], GH_REPO_NAME = [], CLIENT_ID = Some [], CLIENT_SECRET = [],
      TENANT_ID = Some [], USERNAME = Some [], PASSWORD = Some [], FABRIC_TOKEN = [],
      GH_PAT_TOKEN = []\<rparr>"

text \<open>
  The namespace \<^verbatim>\<open>parse_args\<close> returns: an argument that is not required and has no
  default is \<^verbatim>\<open>None\<close> when absent.
\<close>

record args =
  arg_TENANT_ID :: "string option"
  arg_CLIENT_ID :: "string option"
  arg_USER_NAME :: "string option"
  arg_PASSWORD :: "string option"
  arg_WORKSPACE_NAME :: string
  arg_DEVELOPER :: string
  arg_GH_MAIN_BRANCH :: string
  arg_GH_GIT_FOLDER :: string
  arg_GH_NEW_BRANCH :: "string option"
  arg_GH_OWNER :: string
  arg_GH_REPO_NAME :: string
  arg_GH_API_URL :: string
  arg_CAPACITY_ID :: string
  arg_FABRIC_TOKEN :: string
  arg_GH_PAT_TOKEN :: string

text \<open>
  What building the parser and \<^verbatim>\<open>parse_args\<close> do with the command line: return the
  namespace, leave through \<^verbatim>\<open>SystemExit\<close> (a required argument is absent), or raise
  an exception whose text is given.
\<close>

datatype parse_outcome = Parsed args | ParseExit int | ParseRaised string

definition set_main_parameters :: "parse_outcome \<Rightarrow> globals \<Rightarrow> state \<Rightarrow> (exn + globals) \<times> state" where
  "set_main_parameters argv g s =
     (case argv of
        ParseExit c \<Rightarrow> (Inl (SystemExit c), s)
      | ParseRaised msg \<Rightarrow>
          (Inl (ValueError [Lit ''Could not extract parameters: '', Lit msg]),
           logging_error ''Error parsing parameters: %s'' [E (OtherException msg)] s)
      | Parsed a \<Rightarrow>
          (Inr (g\<lparr>TENANT_ID := arg_TENANT_ID a,
                  USERNAME := arg_USER_NAME a,
                  PASSWORD := arg_PASSWORD a,
                  WORKSPACE_NAME := arg_WORKSPACE_NAME a,
                  DEVELOPER := arg_DEVELOPER a,
                  GH_MAIN_BRANCH := arg_GH_MAIN_BRANCH a,
                  GH_NEW_BRANCH := arg_GH_NEW_BRANCH a,
                  GH_GIT_FOLDER := arg_GH_GIT_FOLDER a,
                  GH_OWNER := arg_GH_OWNER a,
                  GH_REPO_NAME := arg_GH_REPO_NAME a,
                  GH_API_URL := (if arg_GH_API_URL a \<noteq> [] then arg_GH_API_URL a
                                 else GH_API_URL g),
                  CLIENT_ID := arg_CLIENT_ID a,
                  CAPACITY_ID := arg_CAPACITY_ID a,
                  FABRIC_TOKEN := arg_FABRIC_TOKEN a,
                  GH_PAT_TOKEN := arg_GH_PAT_TOKEN a\<rparr>),
           logging_info ''Binding parameters...'' [] s))"

section \<open>Main\<close>

text \<open>Lines 434 to 443: the provided token, or one from the identity library.\<close>

definition fabric_token :: "msal \<Rightarrow> globals \<Rightarrow> state \<Rightarrow> (exn + json) \<times> state" where
  "fabric_token msal g s =
     (if FABRIC_TOKEN g \<noteq> [] then
        (let s1 = logging_info ''Fabric token found, using provided token...'' [] s;
             token = FABRIC_TOKEN g;
             token_preview = (if length token > 20 then take 20 token @ ''...'' else token);
             s2 = logging_info ''Token preview (first 20 chars): %s'' [V (JStr token_preview)] s1
         in (Inr (JStr token),
             logging_info ''Token length: %s'' [V (JInt (int (length token)))] s2))
      else
        acquire_token_user_id_password msal (TENANT_ID g) (CLIENT_ID g) (USERNAME g) (PASSWORD g)
          (logging_info ''Generating Fabric token using service account credentials...'' [] s))"

text \<open>Lines 459 to 476: the steps of \<^verbatim>\<open>main\<close> once the workspace exists.\<close>

definition provision ::
  "world \<Rightarrow> globals \<Rightarrow> json \<Rightarrow> json \<Rightarrow> state \<Rightarrow> ((exn + unit) \<times> state) option" where
  "provision http g token workspace_id s =
     (let s1 = logging_info ''Adding workspace admin %s...'' [V (JStr (DEVELOPER g))] s in
      case add_workspace_admins http workspace_id (DEVELOPER g) token s1 of
        (Inl e, s2) \<Rightarrow> Some (Inl e, s2)
      | (Inr u, s2) \<Rightarrow>
          (let s3 = logging_info ''Creating GitHub branch %s from %s...''
                      [V (opt_str (GH_NEW_BRANCH g)), V (JStr (GH_MAIN_BRANCH g))] s2 in
           case create_github_branch http (GH_API_URL g) (GH_OWNER g) (GH_REPO_NAME g)
                  (GH_MAIN_BRANCH g) (GH_NEW_BRANCH g) (GH_PAT_TOKEN g) s3 of
             (Inl e, s4) \<Rightarrow> Some (Inl e, s4)
           | (Inr u, s4) \<Rightarrow>
               (let s5 = logging_info ''Connecting workspace to GitHub branch %s...''
                           [V (opt_str (GH_NEW_BRANCH g))] s4 in
                case connect_branch_to_workspace http (GH_PAT_TOKEN g) workspace_id (GH_OWNER g)
                       (GH_REPO_NAME g) (GH_NEW_BRANCH g) (GH_GIT_FOLDER g) token s5 of
                  (Inl e, s6) \<Rightarrow> Some (Inl e, s6)
                | (Inr u, s6) \<Rightarrow>
                    initialize_workspace_from_git http (GH_NEW_BRANCH g) (WORKSPACE_NAME g)
                      workspace_id token
                      (logging_info ''Initialize workspace from GitHub branch...'' [] s6))))"

definition main :: "parse_outcome \<Rightarrow> msal \<Rightarrow> world \<Rightarrow> state \<Rightarrow> ((exn + unit) \<times> state) option" where
  "main argv msal http s =
     (let s0 = logging_info ''Starting branch-out main flow...'' [] s in
      case set_main_parameters argv initial_globals s0 of
        (Inl e, s1) \<Rightarrow> Some (Inl e, s1)
      | (Inr g, s1) \<Rightarrow>
          if GH_PAT_TOKEN g = [] then
            Some (Inl (ValueError [Lit ''GitHub PAT token was not provided. Set --GH_PAT_TOKEN.'']),
                  s1)
          else
            (case fabric_token msal g s1 of
               (Inl e, s2) \<Rightarrow> Some (Inl e, s2)
             | (Inr token, s2) \<Rightarrow>
                 if \<not> truthy token then
                   Some (Inl (ValueError
                           [Lit ''Could not generate authentication token. Please review the debug logs.'']),
                         logging_error
                           ''Terminating branch out process due to Fabric credential error. Provide a valid token or use a service account without MFA.''
                           [] s2)
                 else
                   (let s3 = logging_info ''Invoking new workspace routine...'' [] s2 in
                    case create_fabric_workspace http (WORKSPACE_NAME g) (CAPACITY_ID g) token s3 of
                      (Inl e, s4) \<Rightarrow> Some (Inl e, s4)
                    | (Inr workspace_id, s4) \<Rightarrow>
                        if \<not> truthy workspace_id then
                          Some (Inl (ValueError [Lit ''Could not create Fabric workspace.'']),
                                logging_error
                                  ''Terminating branch out process as target workspace could not be created. Check permissions or provide a valid Fabric token.''
                                  [] s4)
                        else provision http g token workspace_id s4)))"

section \<open>Observing a run\<close>

text \<open>
  The definitions of this section are not code of the script: they say what is read off
  a run to state its properties, and give the scripted providers the examples use.
\<close>

text \<open>A status that keeps the poller polling.\<close>

definition in_progress :: "json \<Rightarrow> bool" where
  "in_progress v = (v = JStr ''NotStarted'' \<or> v = JStr ''Running'')"

text \<open>The operation status one fetch shows, if it shows one.\<close>

definition observed_status :: "exn + response \<Rightarrow> json option" where
  "observed_status out =
     (case out of
        Inl e \<Rightarrow> None
      | Inr r \<Rightarrow>
          (case json_result r of
             Inl e \<Rightarrow> None
           | Inr st \<Rightarrow> (case py_getitem st ''status'' of Inl e \<Rightarrow> None | Inr v \<Rightarrow> Some v)))"

fun is_log :: "event \<Rightarrow> bool" where
  "is_log (Log l m a) = True"
| "is_log e = False"

fun is_fetch :: "event \<Rightarrow> bool" where
  "is_fetch (Get u h) = True"
| "is_fetch e = False"

fun is_post :: "event \<Rightarrow> bool" where
  "is_post (Post u h b) = True"
| "is_post e = False"

text \<open>What a run did, in order, its log lines left out.\<close>

definition actions :: "state \<Rightarrow> event list" where
  "actions s = filter (\<lambda>e. \<not> is_log e) (events s)"

text \<open>The requests that create or change something at a provider.\<close>

definition posts :: "state \<Rightarrow> event list" where
  "posts s = filter is_post (events s)"

text \<open>A provider that answers the requests of a run from a list, in order.\<close>

definition scripted :: "response list \<Rightarrow> world" where
  "scripted rs i =
     (if i < length rs then Inr (rs ! i) else Inl (RequestException ''no scripted response left''))"

text \<open>The same, for a script whose entries may also be exceptions the request raises.\<close>

definition replayed :: "(exn + response) list \<Rightarrow> world" where
  "replayed outs i =
     (if i < length outs then outs ! i else Inl (RequestException ''no scripted response left''))"

definition json_response :: "int \<Rightarrow> json \<Rightarrow> response" where
  "json_response code body =
     \<lparr>status_code = code, resp_text = [], json_result = Inr body, location = None\<rparr>"

definition status_response :: "(string \<times> json) list \<Rightarrow> response" where
  "status_response kvs = json_response 200 (JObj kvs)"

definition fresh :: state where
  "fresh = \<lparr>clock = 0, events = []\<rparr>"

text \<open>The requests whose presence or absence the properties speak of.\<close>

definition workspace_post :: "string \<Rightarrow> string \<Rightarrow> json \<Rightarrow> event" where
  "workspace_post workspace_name cpty_id token =
     Post [Lit FABRIC_API_URL, Lit ''/workspaces'']
       [(''Authorization'', [Lit ''Bearer '', Fmt token])]
       (Some (PDict [(''displayName'', PVal (JStr workspace_name)),
                     (''capacityId'', PVal (JStr cpty_id))]))"

definition ref_lookup :: "string \<Rightarrow> string \<Rightarrow> string \<Rightarrow> json \<Rightarrow> string \<Rightarrow> event" where
  "ref_lookup api owner repo_name branch_name token =
     Get (ref_url api owner repo_name branch_name) (github_headers token)"

definition ref_creation :: "string \<Rightarrow> string \<Rightarrow> string \<Rightarrow> string option \<Rightarrow> json \<Rightarrow> string \<Rightarrow> event" where
  "ref_creation api owner repo_name new_branch base_sha token =
     Post [Lit api, Lit ''/repos/'', Lit owner, Lit ''/'', Lit repo_name, Lit ''/git/refs'']
       (github_headers token)
       (Some (PDict [(''ref'', PFmt [Lit ''refs/heads/'', Fmt (opt_str new_branch)]),
                     (''sha'', PVal base_sha)]))"

text \<open>
  Entries of a connection list: \<open>named\<close> has the display name asked for, \<open>reusable\<close> has
  it together with an id that Python takes for true.
\<close>

fun is_object :: "json \<Rightarrow> bool" where
  "is_object (JObj kvs) = True"
| "is_object v = False"

definition entry_id :: "(string \<times> json) list \<Rightarrow> json" where
  "entry_id kvs = (case map_of kvs ''id'' of None \<Rightarrow> JNull | Some v \<Rightarrow> v)"

fun named :: "string \<Rightarrow> json \<Rightarrow> bool" where
  "named connection_name (JObj kvs) = (map_of kvs ''displayName'' = Some (JStr connection_name))"
| "named connection_name v = False"

fun reusable :: "string \<Rightarrow> json \<Rightarrow> bool" where
  "reusable connection_name (JObj kvs) =
     (map_of kvs ''displayName'' = Some (JStr connection_name) \<and> truthy (entry_id kvs))"
| "reusable connection_name v = False"

definition connections_lookup :: "json \<Rightarrow> event" where
  "connections_lookup token = Get [Lit FABRIC_API_URL, Lit ''/connections''] (fabric_headers token)"

definition connection_creation :: "string \<Rightarrow> string \<Rightarrow> json \<Rightarrow> event" where
  "connection_creation connection_name pat_token token =
     Post [Lit FABRIC_API_URL, Lit ''/connections''] (fabric_headers token)
       (Some (connection_body connection_name pat_token))"

text \<open>Whether the identity library's result holds an access token that Python takes for true.\<close>

definition token_obtained :: "msal \<Rightarrow> bool" where
  "token_obtained msal =
     (case msal of
        Inl e \<Rightarrow> False
      | Inr result \<Rightarrow> (case map_of result ''access_token'' of None \<Rightarrow> False | Some t \<Rightarrow> truthy t))"

text \<open>The HTTP requests of a run, in order.\<close>

definition requests_made :: "state \<Rightarrow> event list" where
  "requests_made s = filter (\<lambda>e. is_fetch e \<or> is_post e) (events s)"

text \<open>A command line for the examples.\<close>

definition example_args :: args where
  "example_args =
     \<lparr>arg_TENANT_ID = Some ''tenant'', arg_CLIENT_ID = Some ''client'',
      arg_USER_NAME = Some ''svc@example.org'', arg_PASSWORD = Some ''secret'',
      arg_WORKSPACE_NAME = ''feature-ws'', arg_DEVELOPER = ''dev@example.org'',
      arg_GH_MAIN_BRANCH = ''main'', arg_GH_GIT_FOLDER = ''/'',
      arg_GH_NEW_BRANCH = Some ''feature'', arg_GH_OWNER = ''octo'', arg_GH_REPO_NAME = ''repo'',
      arg_GH_API_URL = ''https://api.github.com'', arg_CAPACITY_ID = ''cap'',
      arg_FABRIC_TOKEN = [], arg_GH_PAT_TOKEN = ''pat''\<rparr>"

section \<open>Properties\<close>

subsection \<open>Bookkeeping of the state\<close>

lemma actions_simps:
  "actions (logging_info m a s) = actions s"
  "actions (logging_error m a s) = actions s"
  "actions (time_sleep n s) = actions s @ [Sleep n]"
  by (simp_all add: actions_def logging_info_def logging_error_def time_sleep_def emit_def)

lemma posts_simps:
  "posts (logging_info m a s) = posts s"
  "posts (logging_error m a s) = posts s"
  "posts (time_sleep n s) = posts s"
  by (simp_all add: posts_def logging_info_def logging_error_def time_sleep_def emit_def)

lemma clock_simps:
  "clock (logging_info m a s) = clock s"
  "clock (logging_error m a s) = clock s"
  "clock (time_sleep n s) = clock s"
  by (simp_all add: logging_info_def logging_error_def time_sleep_def emit_def)

lemma requests_get_simps:
  "fst (requests_get http u h s) = http (clock s)"
  "clock (snd (requests_get http u h s)) = Suc (clock s)"
  "actions (snd (requests_get http u h s)) = actions s @ [Get u h]"
  "posts (snd (requests_get http u h s)) = posts s"
  by (simp_all add: requests_get_def actions_def posts_def emit_def)

lemma requests_post_simps:
  "fst (requests_post http u h b s) = http (clock s)"
  "clock (snd (requests_post http u h b s)) = Suc (clock s)"
  "actions (snd (requests_post http u h b s)) = actions s @ [Post u h b]"
  "posts (snd (requests_post http u h b s)) = posts s @ [Post u h b]"
  by (simp_all add: requests_post_def actions_def posts_def emit_def)

lemma scripted_simps:
  "scripted (r # rs) 0 = Inr r"
  "scripted (r # rs) (Suc i) = scripted rs i"
  "scripted [] i = Inl (RequestException ''no scripted response left'')"
  by (simp_all add: scripted_def)

lemma replayed_simps:
  "replayed (x # xs) 0 = x"
  "replayed (x # xs) (Suc i) = replayed xs i"
  "replayed [] i = Inl (RequestException ''no scripted response left'')"
  by (simp_all add: replayed_def)

lemma fresh_simps:
  "clock fresh = 0" "events fresh = []" "actions fresh = []" "posts fresh = []"
  by (simp_all add: fresh_def actions_def posts_def)

lemma emit_simps:
  "clock (emit e s) = clock s"
  "events (emit e s) = events s @ [e]"
  "actions (emit e s) = (if is_log e then actions s else actions s @ [e])"
  "posts (emit e s) = (if is_post e then posts s @ [e] else posts s)"
  "actions (s\<lparr>clock := c\<rparr>) = actions s"
  "posts (s\<lparr>clock := c\<rparr>) = posts s"
  by (simp_all add: emit_def actions_def posts_def)

lemma requests_get_eq:
  "requests_get http u h s = (http (clock s), snd (requests_get http u h s))"
  by (simp add: requests_get_def)

subsection \<open>The poller\<close>

lemma observed_statusD:
  assumes "observed_status out = Some v"
  obtains r st where "out = Inr r" "json_result r = Inr st" "py_getitem st ''status'' = Inr v"
  using assms by (auto simp: observed_status_def split: sum.splits)

lemma observed_status_response:
  "observed_status (Inr (status_response kvs)) = map_of kvs ''status''"
  by (simp add: observed_status_def status_response_def json_response_def split: option.splits)

text \<open>
  The loop on a script whose first \<open>n\<close> statuses keep it polling and whose next status
  does not: it ends there, after \<open>n + 1\<close> fetches with a sleep after each but the last.
\<close>

lemma polling_loop_run:
  assumes "\<forall>i<n. \<exists>v. observed_status (http (clock s + i)) = Some v \<and> in_progress v"
    and "http (clock s + n) = Inr r" and "json_result r = Inr st"
    and "py_getitem st ''status'' = Inr v" and "\<not> in_progress v"
  shows "\<exists>s'. polling_loop http uri retry_after hdrs s = Some (Inr st, s')
           \<and> clock s' = clock s + n + 1
           \<and> actions s' = actions s @ concat (replicate n [Get [Fmt uri] hdrs, Sleep retry_after])
                            @ [Get [Fmt uri] hdrs]"
  using assms
proof (induction n arbitrary: s)
  case 0
  obtain s1 where g: "requests_get http [Fmt uri] hdrs s = (Inr r, s1)"
    using 0(2) requests_get_simps(1)[of http "[Fmt uri]" hdrs s]
    by (cases "requests_get http [Fmt uri] hdrs s") auto
  have s1: "clock s1 = Suc (clock s)" "actions s1 = actions s @ [Get [Fmt uri] hdrs]"
    using requests_get_simps(2,3)[of http "[Fmt uri]" hdrs s] g by auto
  define s3 where "s3 = logging_info ''Long running operation status: %s'' [V v]
         (logging_info ''operation state = %s'' [V st] s1)"
  have run: "polling_loop http uri retry_after hdrs s = Some (Inr st, s3)"
    apply (subst polling_loop.simps)
    using 0 by (simp add: g Let_def in_progress_def s3_def)
  have "clock s3 = clock s + 0 + 1" "actions s3 = actions s @ [Get [Fmt uri] hdrs]"
    by (simp_all add: s3_def actions_simps clock_simps s1)
  then show ?case using run by simp
next
  case (Suc n)
  from Suc.prems(1) obtain v0 where v0: "observed_status (http (clock s)) = Some v0" "in_progress v0"
    by force
  then obtain r0 st0 where r0: "http (clock s) = Inr r0" "json_result r0 = Inr st0"
      "py_getitem st0 ''status'' = Inr v0"
    by (auto elim: observed_statusD)
  obtain s1 where g: "requests_get http [Fmt uri] hdrs s = (Inr r0, s1)"
    using r0(1) requests_get_simps(1)[of http "[Fmt uri]" hdrs s]
    by (cases "requests_get http [Fmt uri] hdrs s") auto
  have s1: "clock s1 = Suc (clock s)" "actions s1 = actions s @ [Get [Fmt uri] hdrs]"
    using requests_get_simps(2,3)[of http "[Fmt uri]" hdrs s] g by auto
  define s4 where "s4 = time_sleep retry_after
         (logging_info ''Long running operation status: %s'' [V v0]
           (logging_info ''operation state = %s'' [V st0] s1))"
  have s4: "clock s4 = Suc (clock s)"
    "actions s4 = actions s @ [Get [Fmt uri] hdrs, Sleep retry_after]"
    by (simp_all add: s4_def actions_simps clock_simps s1)
  have step: "polling_loop http uri retry_after hdrs s = polling_loop http uri retry_after hdrs s4"
    apply (subst polling_loop.simps)
    using v0(2) by (simp add: g r0 Let_def in_progress_def s4_def)
  have "\<forall>i<n. \<exists>v. observed_status (http (clock s4 + i)) = Some v \<and> in_progress v"
    using Suc.prems(1) s4(1) by (metis Suc_less_eq add_Suc_shift)
  moreover have "http (clock s4 + n) = Inr r" using Suc.prems(2) s4(1) by simp
  ultimately obtain s' where s': "polling_loop http uri retry_after hdrs s4 = Some (Inr st, s')"
     "clock s' = clock s4 + n + 1"
     "actions s' = actions s4 @ concat (replicate n [Get [Fmt uri] hdrs, Sleep retry_after])
                            @ [Get [Fmt uri] hdrs]"
    using Suc.IH[of s4] Suc.prems(3,4,5) by blast
  show ?case
    using s' step s4 by simp
qed

lemma polling_result_cases:
  assumes "py_getitem st ''status'' = Inr v"
  shows "fst (except_Exception_polling (polling_result st s)) =
           Inr (if v = JStr ''Failed'' then JNull else v)"
  using assms
  by (cases st)
     (auto simp: polling_result_def except_Exception_polling_def get_Error_def
        split: sum.splits option.splits)

lemma long_running_operation_polling_run:
  assumes "\<forall>i<n. \<exists>v. observed_status (http (clock s + i)) = Some v \<and> in_progress v"
    and "http (clock s + n) = Inr r" and "json_result r = Inr (JObj kvs)"
    and "map_of kvs ''status'' = Some v" and "\<not> in_progress v"
  shows "\<exists>s'. long_running_operation_polling http uri retry_after hdrs s =
                 Some (Inr (if v = JStr ''Failed'' then JNull else v), s')
           \<and> clock s' = clock s + n + 1
           \<and> actions s' = actions s @ concat (replicate n [Get [Fmt uri] hdrs, Sleep retry_after])
                            @ [Get [Fmt uri] hdrs]
           \<and> (v = JStr ''Failed'' \<longrightarrow>
                last (events s') =
                  Log INFO ''The long running operation failed. Error response: %s''
                    [Dumps (case map_of kvs ''Error'' of None \<Rightarrow> JObj [] | Some p \<Rightarrow> p)])"
proof -
  define s0 where "s0 = logging_info
     ''Polling long running operation ID %s started with retry-after %s seconds.''
     [V uri, V (JInt (int retry_after))] s"
  have c0: "clock s0 = clock s" and a0: "actions s0 = actions s"
    by (simp_all add: s0_def clock_simps actions_simps)
  have st: "py_getitem (JObj kvs) ''status'' = Inr v"
    using assms(4) by simp
  obtain s1 where loop: "polling_loop http uri retry_after hdrs s0 = Some (Inr (JObj kvs), s1)"
    and c1: "clock s1 = clock s0 + n + 1"
    and a1: "actions s1 = actions s0 @ concat (replicate n [Get [Fmt uri] hdrs, Sleep retry_after])
                            @ [Get [Fmt uri] hdrs]"
    using polling_loop_run[of n http s0 r "JObj kvs" v uri retry_after hdrs] assms(1,2,3,5) st c0
    by auto
  define res where "res = except_Exception_polling (polling_result (JObj kvs) s1)"
  have run: "long_running_operation_polling http uri retry_after hdrs s = Some res"
    by (simp add: long_running_operation_polling_def Let_def s0_def[symmetric] loop res_def)
  have r1: "fst res = Inr (if v = JStr ''Failed'' then JNull else v)"
    unfolding res_def using polling_result_cases[OF st] .
  have r2: "clock (snd res) = clock s1" "actions (snd res) = actions s1"
    using st by (auto simp: res_def polling_result_def except_Exception_polling_def get_Error_def
        clock_simps actions_simps split: option.splits)
  have r3: "v = JStr ''Failed'' \<longrightarrow> last (events (snd res)) =
                  Log INFO ''The long running operation failed. Error response: %s''
                    [Dumps (case map_of kvs ''Error'' of None \<Rightarrow> JObj [] | Some p \<Rightarrow> p)]"
    using st by (auto simp: res_def polling_result_def except_Exception_polling_def get_Error_def
        logging_info_def emit_def split: option.splits)
  show ?thesis
    using run r1 r2 r3 c0 c1 a0 a1 by (cases res) auto
qed

text \<open>
  Claim C1. Let the script answer the poller's fetches with operation states whose first
  \<open>n\<close> statuses are \<^verbatim>\<open>NotStarted\<close> or \<^verbatim>\<open>Running\<close> and whose next status \<open>v\<close> is neither, so
  that the first terminal status stands at position \<open>n + 1\<close> of the sequence. Then
  \<^verbatim>\<open>long_running_operation_polling\<close> returns, without raising, after exactly \<open>n + 1\<close>
  fetches, having slept the retry interval after each fetch but the last and done
  nothing else; it returns \<open>v\<close>, or \<^verbatim>\<open>None\<close> when \<open>v\<close> is \<^verbatim>\<open>Failed\<close>, and then its last log
  line carries the \<^verbatim>\<open>Error\<close> entry of the final operation state (\<^verbatim>\<open>{}\<close> when there is
  none). The sequences of the claim, Running, Running, Succeeded and Running, Failed,
  are the two instances of the witness.
\<close>

theorem polling_fetches_until_terminal:
  assumes "\<forall>i<n. \<exists>v. observed_status (http (clock s + i)) = Some v \<and> in_progress v"
    and "http (clock s + n) = Inr r" and "json_result r = Inr (JObj kvs)"
    and "map_of kvs ''status'' = Some v" and "\<not> in_progress v"
  shows "\<exists>s'. long_running_operation_polling http uri retry_after hdrs s =
                 Some (Inr (if v = JStr ''Failed'' then JNull else v), s')
           \<and> length (filter is_fetch (actions s')) = length (filter is_fetch (actions s)) + (n + 1)
           \<and> actions s' = actions s @ concat (replicate n [Get [Fmt uri] hdrs, Sleep retry_after])
                            @ [Get [Fmt uri] hdrs]
           \<and> (v = JStr ''Failed'' \<longrightarrow>
                last (events s') =
                  Log INFO ''The long running operation failed. Error response: %s''
                    [Dumps (case map_of kvs ''Error'' of None \<Rightarrow> JObj [] | Some p \<Rightarrow> p)])"
proof -
  have count: "length (filter is_fetch (concat (replicate k [Get u h, Sleep d]))) = k" for k u h d
    by (induction k) simp_all
  from long_running_operation_polling_run[OF assms, of uri retry_after hdrs]
  obtain s' where s': "long_running_operation_polling http uri retry_after hdrs s =
                 Some (Inr (if v = JStr ''Failed'' then JNull else v), s')"
     "actions s' = actions s @ concat (replicate n [Get [Fmt uri] hdrs, Sleep retry_after])
                            @ [Get [Fmt uri] hdrs]"
     "v = JStr ''Failed'' \<longrightarrow>
                last (events s') =
                  Log INFO ''The long running operation failed. Error response: %s''
                    [Dumps (case map_of kvs ''Error'' of None \<Rightarrow> JObj [] | Some p \<Rightarrow> p)]"
    by blast
  have "length (filter is_fetch (actions s')) = length (filter is_fetch (actions s)) + (n + 1)"
    by (simp add: s'(2) count)
  with s' show ?thesis by blast
qed

theorem polling_fetches_until_terminal_witness:
  "(\<exists>s'. long_running_operation_polling
           (scripted [status_response [(''status'', JStr ''Running'')],
                      status_response [(''status'', JStr ''Running'')],
                      status_response [(''status'', JStr ''Succeeded'')]])
           (JStr ''https://poll'') 15 [] fresh = Some (Inr (JStr ''Succeeded''), s')
         \<and> length (filter is_fetch (actions s')) = 3
         \<and> actions s' = [Get [Fmt (JStr ''https://poll'')] [], Sleep 15,
                         Get [Fmt (JStr ''https://poll'')] [], Sleep 15,
                         Get [Fmt (JStr ''https://poll'')] []])
   \<and> (\<exists>s'. long_running_operation_polling
           (scripted [status_response [(''status'', JStr ''Running'')],
                      status_response [(''status'', JStr ''Failed''),
                                       (''Error'', JObj [(''errorCode'', JStr ''Boom'')])]])
           (JStr ''https://poll'') 15 [] fresh = Some (Inr JNull, s')
         \<and> length (filter is_fetch (actions s')) = 2
         \<and> last (events s') =
              Log INFO ''The long running operation failed. Error response: %s''
                [Dumps (JObj [(''errorCode'', JStr ''Boom'')])])"
proof -
  define running where "running = status_response [(''status'', JStr ''Running'')]"
  define succeeded where "succeeded = status_response [(''status'', JStr ''Succeeded'')]"
  define failed where "failed = status_response
     [(''status'', JStr ''Failed''), (''Error'', JObj [(''errorCode'', JStr ''Boom'')])]"
  note a = fresh_simps
  have two: "(\<forall>i<2. P i) \<longleftrightarrow> P 0 \<and> P (Suc 0)" for P :: "nat \<Rightarrow> bool"
    by (auto simp: less_Suc_eq numeral_2_eq_2)
  have obs: "observed_status (Inr running) = Some (JStr ''Running'')"
    by (simp add: running_def observed_status_response)
  have p1: "\<forall>i<2. \<exists>v. observed_status (scripted [running, running, succeeded] (clock fresh + i)) = Some v
               \<and> in_progress v"
    by (simp add: two a scripted_simps obs in_progress_def)
  have p2: "scripted [running, running, succeeded] (clock fresh + 2) = Inr succeeded"
    by (simp add: a scripted_simps numeral_2_eq_2)
  have p3: "json_result succeeded = Inr (JObj [(''status'', JStr ''Succeeded'')])"
    by (simp add: succeeded_def status_response_def json_response_def)
  have q1: "\<forall>i<1. \<exists>v. observed_status (scripted [running, failed] (clock fresh + i)) = Some v
               \<and> in_progress v"
    by (simp add: a scripted_simps obs in_progress_def)
  have q2: "scripted [running, failed] (clock fresh + 1) = Inr failed"
    by (simp add: a scripted_simps)
  have q3: "json_result failed = Inr (JObj [(''status'', JStr ''Failed''),
              (''Error'', JObj [(''errorCode'', JStr ''Boom'')])])"
    by (simp add: failed_def status_response_def json_response_def)
  have "\<exists>s'. long_running_operation_polling (scripted [running, running, succeeded])
           (JStr ''https://poll'') 15 [] fresh = Some (Inr (JStr ''Succeeded''), s')
         \<and> length (filter is_fetch (actions s')) = 3
         \<and> actions s' = [Get [Fmt (JStr ''https://poll'')] [], Sleep 15,
                         Get [Fmt (JStr ''https://poll'')] [], Sleep 15,
                         Get [Fmt (JStr ''https://poll'')] []]"
    using polling_fetches_until_terminal[OF p1 p2 p3,
        of "JStr ''Succeeded''" "JStr ''https://poll''" 15 "[]"]
    by (simp add: a in_progress_def numeral_2_eq_2 numeral_3_eq_3)
  moreover have "\<exists>s'. long_running_operation_polling (scripted [running, failed])
           (JStr ''https://poll'') 15 [] fresh = Some (Inr JNull, s')
         \<and> length (filter is_fetch (actions s')) = 2
         \<and> last (events s') =
              Log INFO ''The long running operation failed. Error response: %s''
                [Dumps (JObj [(''errorCode'', JStr ''Boom'')])]"
    using polling_fetches_until_terminal[OF q1 q2 q3,
        of "JStr ''Failed''" "JStr ''https://poll''" 15 "[]"]
    by (auto simp add: a in_progress_def numeral_2_eq_2)
  ultimately show ?thesis
    unfolding running_def succeeded_def failed_def by blast
qed

text \<open>
  The converse of \<open>polling_loop_run\<close>: a loop that ends normally has seen only statuses
  that keep it polling before the status of its last operation state.
\<close>

lemma polling_loop_first_terminal_aux:
  assumes "polling_loop http uri retry_after hdrs s = Some y"
  shows "case fst y of Inl e \<Rightarrow> True
         | Inr st \<Rightarrow>
             \<exists>n v. (\<forall>i<n. \<exists>w. observed_status (http (clock s + i)) = Some w \<and> in_progress w)
                  \<and> observed_status (http (clock s + n)) = Some v \<and> \<not> in_progress v
                  \<and> py_getitem st ''status'' = Inr v"
proof (rule polling_loop.raw_induct[OF _ assms], goal_cases)
  case (1 loop http uri retry_after hdrs s y)
  show ?case
  proof (cases "fst y")
    case (Inl e)
    then show ?thesis by simp
  next
    case (Inr st)
    obtain out s1 where g: "requests_get http [Fmt uri] hdrs s = (out, s1)"
      by (cases "requests_get http [Fmt uri] hdrs s")
    have out: "out = http (clock s)" and c1: "clock s1 = Suc (clock s)"
      using requests_get_simps(1,2)[of http "[Fmt uri]" hdrs s] g by auto
    from 1(2) Inr obtain r st0 v0 where r: "out = Inr r" "json_result r = Inr st0"
        "py_getitem st0 ''status'' = Inr v0"
      by (auto simp: g Let_def split: sum.splits if_splits)
    have obs: "observed_status (http (clock s)) = Some v0"
      using r out by (simp add: observed_status_def)
    show ?thesis
    proof (cases "in_progress v0")
      case False
      then have "y = (Inr st0, logging_info ''Long running operation status: %s'' [V v0]
           (logging_info ''operation state = %s'' [V st0] s1))"
        using 1(2) r by (simp add: g Let_def in_progress_def)
      then have "st = st0" using Inr by simp
      then show ?thesis using Inr obs False r(3)
        by (auto intro!: exI[of _ 0] exI[of _ v0])
    next
      case True
      define s4 where "s4 = time_sleep retry_after
         (logging_info ''Long running operation status: %s'' [V v0]
           (logging_info ''operation state = %s'' [V st0] s1))"
      have c4: "clock s4 = Suc (clock s)"
        by (simp add: s4_def clock_simps c1)
      have "loop http uri retry_after hdrs s4 = Some y"
        using 1(2) r True by (simp add: g Let_def in_progress_def s4_def)
      from 1(1)[OF this] Inr obtain n v where
        nv: "\<forall>i<n. \<exists>w. observed_status (http (clock s4 + i)) = Some w \<and> in_progress w"
          "observed_status (http (clock s4 + n)) = Some v" "\<not> in_progress v"
          "py_getitem st ''status'' = Inr v"
        by auto
      have "\<forall>i<Suc n. \<exists>w. observed_status (http (clock s + i)) = Some w \<and> in_progress w"
      proof (intro allI impI)
        fix i assume "i < Suc n"
        show "\<exists>w. observed_status (http (clock s + i)) = Some w \<and> in_progress w"
        proof (cases i)
          case 0
          then show ?thesis using obs True by simp
        next
          case (Suc j)
          then have "j < n" using \<open>i < Suc n\<close> by simp
          then show ?thesis using nv(1) c4 Suc by simp
        qed
      qed
      moreover have "observed_status (http (clock s + Suc n)) = Some v"
        using nv(2) c4 by simp
      ultimately show ?thesis using Inr nv(3,4)
        by (auto intro!: exI[of _ "Suc n"] exI[of _ v])
    qed
  qed
qed

lemma long_running_operation_polling_value:
  assumes "long_running_operation_polling http uri retry_after hdrs s = Some (Inr x, s')"
    and "x \<noteq> JNull"
  shows "x \<noteq> JStr ''Failed'' \<and>
         (\<exists>n. (\<forall>i<n. \<exists>w. observed_status (http (clock s + i)) = Some w \<and> in_progress w)
              \<and> observed_status (http (clock s + n)) = Some x \<and> \<not> in_progress x)"
proof -
  define s0 where "s0 = logging_info
     ''Polling long running operation ID %s started with retry-after %s seconds.''
     [V uri, V (JInt (int retry_after))] s"
  have c0: "clock s0 = clock s"
    by (simp add: s0_def clock_simps)
  from assms obtain st s1 where loop: "polling_loop http uri retry_after hdrs s0 = Some (Inr st, s1)"
    and res: "except_Exception_polling (polling_result st s1) = (Inr x, s')"
    by (auto simp: long_running_operation_polling_def Let_def s0_def[symmetric]
        except_Exception_polling_def split: option.splits sum.splits prod.splits if_splits)
  from polling_loop_first_terminal_aux[OF loop] obtain n v where
    nv: "\<forall>i<n. \<exists>w. observed_status (http (clock s + i)) = Some w \<and> in_progress w"
      "observed_status (http (clock s + n)) = Some v" "\<not> in_progress v"
      "py_getitem st ''status'' = Inr v"
    using c0 by auto
  have "Inr x = Inr (if v = JStr ''Failed'' then JNull else v)"
    using polling_result_cases[OF nv(4), of s1] res by simp
  then have "x = v" "x \<noteq> JStr ''Failed''"
    using assms(2) by (auto split: if_splits)
  then show ?thesis using nv by blast
qed

text \<open>
  Claim C10. The poller returns \<^verbatim>\<open>None\<close> when the first status outside \<^verbatim>\<open>NotStarted\<close> and
  \<^verbatim>\<open>Running\<close> that it observes is \<^verbatim>\<open>Failed\<close>. Conversely, on any script of responses at
  all, a value other than \<^verbatim>\<open>None\<close> that it returns is the first status it observed
  outside \<^verbatim>\<open>NotStarted\<close> and \<^verbatim>\<open>Running\<close>, and that status is not \<^verbatim>\<open>Failed\<close>.
\<close>

theorem polling_returns_none_on_failed:
  "(\<forall>n r kvs.
      (\<forall>i<n. \<exists>w. observed_status (http (clock s + i)) = Some w \<and> in_progress w)
      \<and> http (clock s + n) = Inr r \<and> json_result r = Inr (JObj kvs)
      \<and> map_of kvs ''status'' = Some (JStr ''Failed'')
      \<longrightarrow> (\<exists>s'. long_running_operation_polling http uri retry_after hdrs s = Some (Inr JNull, s')))
   \<and> (\<forall>x s'.
        long_running_operation_polling http uri retry_after hdrs s = Some (Inr x, s') \<and> x \<noteq> JNull
        \<longrightarrow> x \<noteq> JStr ''Failed''
            \<and> (\<exists>n. (\<forall>i<n. \<exists>w. observed_status (http (clock s + i)) = Some w \<and> in_progress w)
                  \<and> observed_status (http (clock s + n)) = Some x \<and> \<not> in_progress x))"
proof (intro conjI allI impI)
  fix n r kvs
  assume h: "(\<forall>i<n. \<exists>w. observed_status (http (clock s + i)) = Some w \<and> in_progress w)
      \<and> http (clock s + n) = Inr r \<and> json_result r = Inr (JObj kvs)
      \<and> map_of kvs ''status'' = Some (JStr ''Failed'')"
  have "\<not> in_progress (JStr ''Failed'')" by (simp add: in_progress_def)
  with h long_running_operation_polling_run[of n http s r kvs "JStr ''Failed''" uri retry_after hdrs]
  show "\<exists>s'. long_running_operation_polling http uri retry_after hdrs s = Some (Inr JNull, s')"
    by auto
next
  fix x s'
  assume "long_running_operation_polling http uri retry_after hdrs s = Some (Inr x, s') \<and> x \<noteq> JNull"
  then show "x \<noteq> JStr ''Failed''"
    using long_running_operation_polling_value by blast
next
  fix x s'
  assume "long_running_operation_polling http uri retry_after hdrs s = Some (Inr x, s') \<and> x \<noteq> JNull"
  then show "\<exists>n. (\<forall>i<n. \<exists>w. observed_status (http (clock s + i)) = Some w \<and> in_progress w)
                  \<and> observed_status (http (clock s + n)) = Some x \<and> \<not> in_progress x"
    using long_running_operation_polling_value by blast
qed

theorem polling_returns_none_on_failed_witness:
  "(\<exists>s'. long_running_operation_polling
           (scripted [status_response [(''status'', JStr ''Running'')],
                      status_response [(''status'', JStr ''Failed'')]])
           (JStr ''https://poll'') 15 [] fresh = Some (Inr JNull, s'))
   \<and> (\<exists>s'. long_running_operation_polling
           (scripted [status_response [(''status'', JStr ''Cancelled'')]])
           (JStr ''https://poll'') 15 [] fresh = Some (Inr (JStr ''Cancelled''), s'))
   \<and> JStr ''Cancelled'' \<noteq> JStr ''Failed''"
proof -
  define running where "running = status_response [(''status'', JStr ''Running'')]"
  define failed where "failed = status_response [(''status'', JStr ''Failed'')]"
  define cancelled where "cancelled = status_response [(''status'', JStr ''Cancelled'')]"
  note a = fresh_simps
  have obs: "observed_status (Inr running) = Some (JStr ''Running'')"
    by (simp add: running_def observed_status_response)
  have q: "(\<forall>i<1. \<exists>v. observed_status (scripted [running, failed] (clock fresh + i)) = Some v
               \<and> in_progress v)
     \<and> scripted [running, failed] (clock fresh + 1) = Inr failed
     \<and> json_result failed = Inr (JObj [(''status'', JStr ''Failed'')])
     \<and> map_of [(''status'', JStr ''Failed'')] ''status'' = Some (JStr ''Failed'')"
    by (simp add: a scripted_simps obs in_progress_def failed_def status_response_def
        json_response_def)
  have first: "\<exists>s'. long_running_operation_polling (scripted [running, failed])
           (JStr ''https://poll'') 15 [] fresh = Some (Inr JNull, s')"
    using polling_returns_none_on_failed[of "scripted [running, failed]" fresh
        "JStr ''https://poll''" 15 "[]", THEN conjunct1, rule_format, OF q] .
  have c: "\<forall>i<0. \<exists>v. observed_status (scripted [cancelled] (clock fresh + i)) = Some v
               \<and> in_progress v"
     "scripted [cancelled] (clock fresh + 0) = Inr cancelled"
     "json_result cancelled = Inr (JObj [(''status'', JStr ''Cancelled'')])"
     "map_of [(''status'', JStr ''Cancelled'')] ''status'' = Some (JStr ''Cancelled'')"
     "\<not> in_progress (JStr ''Cancelled'')"
    by (simp_all add: a scripted_simps in_progress_def cancelled_def status_response_def
        json_response_def)
  from long_running_operation_polling_run[OF c, of "JStr ''https://poll''" 15 "[]"]
  obtain s' where s': "long_running_operation_polling (scripted [cancelled])
           (JStr ''https://poll'') 15 [] fresh = Some (Inr (JStr ''Cancelled''), s')"
    by auto
  have "JStr ''Cancelled'' \<noteq> JStr ''Failed''"
    using polling_returns_none_on_failed[of "scripted [cancelled]" fresh
        "JStr ''https://poll''" 15 "[]", THEN conjunct2, rule_format, of "JStr ''Cancelled''" s']
      s' by blast
  with first s' show ?thesis
    unfolding running_def failed_def cancelled_def by blast
qed

subsection \<open>Folder normalization\<close>

lemma takeWhile_slash:
  "takeWhile (\<lambda>c. c = CHR ''/'') xs = replicate (length (takeWhile (\<lambda>c. c = CHR ''/'') xs)) CHR ''/''"
  by (induction xs) auto

lemma rstrip_slash_decomp: "\<exists>k. s = rstrip_slash s @ replicate k CHR ''/''"
proof -
  let ?P = "\<lambda>c. c = CHR ''/''"
  have "rstrip_slash s @ rev (takeWhile ?P (rev s)) = rev (takeWhile ?P (rev s) @ dropWhile ?P (rev s))"
    by (simp only: rstrip_slash_def rev_append)
  also have "\<dots> = s"
    by (simp only: takeWhile_dropWhile_id rev_rev_ident)
  finally have "s = rstrip_slash s @ rev (takeWhile ?P (rev s))"
    by (rule sym)
  also have "rev (takeWhile ?P (rev s)) = replicate (length (takeWhile ?P (rev s))) CHR ''/''"
    by (subst takeWhile_slash) simp
  finally show ?thesis by (rule exI)
qed

lemma rstrip_slash_last: "rstrip_slash s = [] \<or> last (rstrip_slash s) \<noteq> CHR ''/''"
proof (cases "dropWhile (\<lambda>c. c = CHR ''/'') (rev s)")
  case Nil
  then show ?thesis by (simp add: rstrip_slash_def)
next
  case (Cons x xs)
  have "\<not> (hd (dropWhile (\<lambda>c. c = CHR ''/'') (rev s)) = CHR ''/'')"
    by (rule hd_dropWhile) (simp add: Cons)
  then have "x \<noteq> CHR ''/''"
    by (simp add: Cons)
  then show ?thesis using Cons by (simp add: rstrip_slash_def)
qed

text \<open>
  Claim C5. The folder normalization of \<^verbatim>\<open>connect_branch_to_workspace\<close> maps \<^verbatim>\<open>"/"\<close>, the
  backslash and the empty string to the empty directory name, and \<^verbatim>\<open>"a/b/"\<close> to
  \<^verbatim>\<open>"a/b"\<close>. Every other folder is mapped to itself without its trailing slashes: the
  folder is the result followed by slashes only, and the result does not end in a slash.
\<close>

theorem directory_name_normalization:
  "directory_name ''/'' = [] \<and> directory_name [CHR 0x5C] = [] \<and> directory_name [] = []
   \<and> directory_name ''a/b/'' = ''a/b''
   \<and> (\<forall>git_folder. git_folder \<notin> {''/'', [CHR 0x5C], []} \<longrightarrow>
         directory_name git_folder = rstrip_slash git_folder
         \<and> (\<exists>k. git_folder = directory_name git_folder @ replicate k CHR ''/'')
         \<and> (directory_name git_folder = [] \<or> last (directory_name git_folder) \<noteq> CHR ''/''))"
proof (intro conjI allI impI)
  show "directory_name ''a/b/'' = ''a/b''"
    by (simp add: directory_name_def rstrip_slash_def)
next
  fix g :: string assume "g \<notin> {''/'', [CHR 0x5C], []}"
  then have eq: "directory_name g = rstrip_slash g"
    by (simp add: directory_name_def)
  show "directory_name g = rstrip_slash g" by (rule eq)
  show "\<exists>k. g = directory_name g @ replicate k CHR ''/''"
    unfolding eq by (rule rstrip_slash_decomp)
  show "directory_name g = [] \<or> last (directory_name g) \<noteq> CHR ''/''"
    unfolding eq by (rule rstrip_slash_last)
qed (simp_all add: directory_name_def)

theorem directory_name_normalization_witness:
  "''src/fabric//'' \<notin> {''/'', [CHR 0x5C], []} \<and> directory_name ''src/fabric//'' = ''src/fabric''"
proof -
  have h: "''src/fabric//'' \<notin> {''/'', [CHR 0x5C], []}" by simp
  have "directory_name ''src/fabric//'' = rstrip_slash ''src/fabric//''"
    using directory_name_normalization[THEN conjunct2, THEN conjunct2, THEN conjunct2,
        THEN conjunct2, rule_format, OF h] by (rule conjunct1)
  then show ?thesis by (simp add: rstrip_slash_def)
qed

subsection \<open>Listing connections\<close>

text \<open>
  Claim C7. When the listing request is answered without an HTTP error, \<^verbatim>\<open>list_connections\<close>
  returns the list \<open>L\<close> both when the body is \<open>L\<close> itself and when the body is a dict
  holding \<open>L\<close> under \<^verbatim>\<open>"value"\<close> (so for \<^verbatim>\<open>{"value": L}\<close>), and the resolver's loop
  then visits exactly the entries of \<open>L\<close>.
\<close>

theorem list_connections_both_shapes:
  assumes "http (clock s) = Inr r" and "raise_for_status r = Inr ()"
    and "json_result r = Inr data"
    and "data = JArr L \<or> (\<exists>kvs. data = JObj kvs \<and> map_of kvs ''value'' = Some (JArr L))"
  shows "fst (list_connections http token s) = Inr (JArr L)
         \<and> py_iter (JArr L) = Inr L"
  using assms
  by (subst list_connections_def, subst requests_get_eq)
     (auto simp: except_RequestException_def)

theorem list_connections_both_shapes_witness:
  "fst (list_connections
          (scripted [json_response 200 (JArr [JObj [(''id'', JStr ''c1'')]])]) (JStr ''t'') fresh)
     = Inr (JArr [JObj [(''id'', JStr ''c1'')]])
   \<and> fst (list_connections
          (scripted [json_response 200 (JObj [(''value'', JArr [JObj [(''id'', JStr ''c1'')]])])])
          (JStr ''t'') fresh)
     = Inr (JArr [JObj [(''id'', JStr ''c1'')]])"
proof -
  let ?L = "[JObj [(''id'', JStr ''c1'')]]"
  have ok: "raise_for_status (json_response 200 d) = Inr ()" for d
    by (simp add: raise_for_status_def json_response_def)
  have js: "json_result (json_response 200 d) = Inr d" for d
    by (simp add: json_response_def)
  have w: "scripted [x] (clock fresh) = Inr x" for x
    by (simp add: fresh_simps scripted_simps)
  have "fst (list_connections (scripted [json_response 200 (JArr ?L)]) (JStr ''t'') fresh)
          = Inr (JArr ?L)"
    using list_connections_both_shapes[where s = fresh and L = ?L and token = "JStr ''t''"
        and http = "scripted [json_response 200 (JArr ?L)]", OF w ok js] by simp
  moreover have "fst (list_connections (scripted [json_response 200 (JObj [(''value'', JArr ?L)])])
          (JStr ''t'') fresh) = Inr (JArr ?L)"
    using list_connections_both_shapes[where s = fresh and L = ?L and token = "JStr ''t''"
        and http = "scripted [json_response 200 (JObj [(''value'', JArr ?L)])]", OF w ok js]
    by simp
  ultimately show ?thesis by blast
qed

subsection \<open>Workspace creation\<close>

lemma create_fabric_workspace_409:
  assumes "http (clock s) = Inr r" and "status_code r = 409"
  shows "fst (create_fabric_workspace http workspace_name cpty_id token s) = Inl workspace_already_exists"
    and "actions (snd (create_fabric_workspace http workspace_name cpty_id token s))
           = actions s @ [workspace_post workspace_name cpty_id token]"
    and "clock (snd (create_fabric_workspace http workspace_name cpty_id token s)) = Suc (clock s)"
  using assms
  by (simp_all add: create_fabric_workspace_def requests_post_def Let_def
      except_RequestException_def workspace_already_exists_def workspace_post_def
      actions_simps clock_simps emit_simps)

lemma create_fabric_workspace_201:
  assumes "http (clock s) = Inr r" and "status_code r = 201" and "json_result r = Inr (JObj kvs)"
  shows "fst (create_fabric_workspace http workspace_name cpty_id token s)
           = Inr (case map_of kvs ''id'' of None \<Rightarrow> JNull | Some v \<Rightarrow> v)"
    and "actions (snd (create_fabric_workspace http workspace_name cpty_id token s))
           = actions s @ [workspace_post workspace_name cpty_id token]"
    and "clock (snd (create_fabric_workspace http workspace_name cpty_id token s)) = Suc (clock s)"
  using assms
  by (simp_all add: create_fabric_workspace_def requests_post_def Let_def
      except_RequestException_def workspace_post_def
      actions_simps clock_simps emit_simps)

lemma main_conflict:
  assumes "arg_GH_PAT_TOKEN a \<noteq> []" and "arg_FABRIC_TOKEN a \<noteq> []"
    and "http (clock s) = Inr r" and "status_code r = 409"
  shows "\<exists>s'. main (Parsed a) msal http s = Some (Inl workspace_already_exists, s')
          \<and> actions s' = actions s @ [workspace_post (arg_WORKSPACE_NAME a) (arg_CAPACITY_ID a)
                                          (JStr (arg_FABRIC_TOKEN a))]"
proof -
  define s0 where "s0 = logging_info ''Starting branch-out main flow...'' [] s"
  obtain g s1 where p: "set_main_parameters (Parsed a) initial_globals s0 = (Inr g, s1)"
    and g: "GH_PAT_TOKEN g = arg_GH_PAT_TOKEN a" "FABRIC_TOKEN g = arg_FABRIC_TOKEN a"
      "WORKSPACE_NAME g = arg_WORKSPACE_NAME a" "CAPACITY_ID g = arg_CAPACITY_ID a"
    and s1: "clock s1 = clock s" "actions s1 = actions s"
    by (simp add: set_main_parameters_def s0_def clock_simps actions_simps)
  obtain s2 where t: "fabric_token msal g s1 = (Inr (JStr (arg_FABRIC_TOKEN a)), s2)"
    and s2: "clock s2 = clock s" "actions s2 = actions s"
    using assms(2) by (simp add: fabric_token_def g Let_def clock_simps actions_simps s1)
  define s3 where "s3 = logging_info ''Invoking new workspace routine...'' [] s2"
  have s3: "clock s3 = clock s" "actions s3 = actions s"
    by (simp_all add: s3_def clock_simps actions_simps s2)
  obtain res s4 where c: "create_fabric_workspace http (arg_WORKSPACE_NAME a) (arg_CAPACITY_ID a)
       (JStr (arg_FABRIC_TOKEN a)) s3 = (res, s4)"
    by (cases "create_fabric_workspace http (arg_WORKSPACE_NAME a) (arg_CAPACITY_ID a)
       (JStr (arg_FABRIC_TOKEN a)) s3")
  have h: "http (clock s3) = Inr r" using assms(3) s3 by simp
  have res: "res = Inl workspace_already_exists"
    using create_fabric_workspace_409(1)[where http = http and s = s3, OF h assms(4),
        of "arg_WORKSPACE_NAME a" "arg_CAPACITY_ID a" "JStr (arg_FABRIC_TOKEN a)"] c by simp
  have s4: "actions s4 = actions s @ [workspace_post (arg_WORKSPACE_NAME a) (arg_CAPACITY_ID a)
                                          (JStr (arg_FABRIC_TOKEN a))]"
    using create_fabric_workspace_409(2)[where http = http and s = s3, OF h assms(4),
        of "arg_WORKSPACE_NAME a" "arg_CAPACITY_ID a" "JStr (arg_FABRIC_TOKEN a)"] c s3 by simp
  have "main (Parsed a) msal http s = Some (Inl workspace_already_exists, s4)"
    using assms(1,2)
    by (simp add: main_def Let_def s0_def[symmetric] p g t s3_def[symmetric] c res)
  then show ?thesis using s4 by blast
qed

text \<open>
  Claim C3. When the provider answers the creation request with the conflict status 409,
  \<^verbatim>\<open>create_fabric_workspace\<close> raises the "already exists" error: it returns no
  identifier and has issued that one request only. A second creation with the same name,
  after a first that was answered 201, therefore ends in that error. In \<^verbatim>\<open>main\<close> the
  error is fatal: the run ends with it and with no further request. The error is not the
  one \<^verbatim>\<open>main\<close> raises for a workspace that could not be created.
\<close>

theorem create_fabric_workspace_conflict:
  "(\<forall>r. http (clock s) = Inr r \<and> status_code r = 409 \<longrightarrow>
       fst (create_fabric_workspace http workspace_name cpty_id token s) = Inl workspace_already_exists
       \<and> actions (snd (create_fabric_workspace http workspace_name cpty_id token s))
           = actions s @ [workspace_post workspace_name cpty_id token])
   \<and> (\<forall>r1 r2 kvs. http (clock s) = Inr r1 \<and> status_code r1 = 201 \<and> json_result r1 = Inr (JObj kvs)
         \<and> http (Suc (clock s)) = Inr r2 \<and> status_code r2 = 409 \<longrightarrow>
       fst (create_fabric_workspace http workspace_name cpty_id token s)
         = Inr (case map_of kvs ''id'' of None \<Rightarrow> JNull | Some v \<Rightarrow> v)
       \<and> fst (create_fabric_workspace http workspace_name cpty_id token
                (snd (create_fabric_workspace http workspace_name cpty_id token s)))
         = Inl workspace_already_exists)
   \<and> (\<forall>a r msal. arg_GH_PAT_TOKEN a \<noteq> [] \<and> arg_FABRIC_TOKEN a \<noteq> []
         \<and> http (clock s) = Inr r \<and> status_code r = 409 \<longrightarrow>
       (\<exists>s'. main (Parsed a) msal http s = Some (Inl workspace_already_exists, s')
          \<and> actions s' = actions s @ [workspace_post (arg_WORKSPACE_NAME a) (arg_CAPACITY_ID a)
                                          (JStr (arg_FABRIC_TOKEN a))]))
   \<and> workspace_already_exists \<noteq> ValueError [Lit ''Could not create Fabric workspace.'']"
proof (intro conjI allI impI)
  fix r assume h: "http (clock s) = Inr r \<and> status_code r = 409"
  show "fst (create_fabric_workspace http workspace_name cpty_id token s) = Inl workspace_already_exists"
    using h create_fabric_workspace_409(1) by blast
  show "actions (snd (create_fabric_workspace http workspace_name cpty_id token s))
           = actions s @ [workspace_post workspace_name cpty_id token]"
    using h create_fabric_workspace_409(2) by blast
next
  fix r1 r2 kvs
  assume h: "http (clock s) = Inr r1 \<and> status_code r1 = 201 \<and> json_result r1 = Inr (JObj kvs)
         \<and> http (Suc (clock s)) = Inr r2 \<and> status_code r2 = 409"
  show "fst (create_fabric_workspace http workspace_name cpty_id token s)
         = Inr (case map_of kvs ''id'' of None \<Rightarrow> JNull | Some v \<Rightarrow> v)"
    using h create_fabric_workspace_201(1) by blast
  have "clock (snd (create_fabric_workspace http workspace_name cpty_id token s)) = Suc (clock s)"
    using h create_fabric_workspace_201(3) by blast
  then have "http (clock (snd (create_fabric_workspace http workspace_name cpty_id token s))) = Inr r2"
    using h by simp
  then show "fst (create_fabric_workspace http workspace_name cpty_id token
                (snd (create_fabric_workspace http workspace_name cpty_id token s)))
         = Inl workspace_already_exists"
    using h create_fabric_workspace_409(1) by blast
next
  fix a :: args and r msal
  assume "arg_GH_PAT_TOKEN a \<noteq> [] \<and> arg_FABRIC_TOKEN a \<noteq> []
         \<and> http (clock s) = Inr r \<and> status_code r = 409"
  then show "\<exists>s'. main (Parsed a) msal http s = Some (Inl workspace_already_exists, s')
          \<and> actions s' = actions s @ [workspace_post (arg_WORKSPACE_NAME a) (arg_CAPACITY_ID a)
                                          (JStr (arg_FABRIC_TOKEN a))]"
    using main_conflict by blast
next
  show "workspace_already_exists \<noteq> ValueError [Lit ''Could not create Fabric workspace.'']"
    by (simp add: workspace_already_exists_def)
qed

theorem create_fabric_workspace_conflict_witness:
  "fst (create_fabric_workspace (scripted [json_response 409 JNull]) ''feature-ws'' ''cap''
          (JStr ''tok'') fresh) = Inl workspace_already_exists
   \<and> fst (create_fabric_workspace
            (scripted [json_response 201 (JObj [(''id'', JStr ''w1'')]), json_response 409 JNull])
            ''feature-ws'' ''cap'' (JStr ''tok'') fresh) = Inr (JStr ''w1'')
   \<and> fst (create_fabric_workspace
            (scripted [json_response 201 (JObj [(''id'', JStr ''w1'')]), json_response 409 JNull])
            ''feature-ws'' ''cap'' (JStr ''tok'')
            (snd (create_fabric_workspace
                    (scripted [json_response 201 (JObj [(''id'', JStr ''w1'')]),
                               json_response 409 JNull])
                    ''feature-ws'' ''cap'' (JStr ''tok'') fresh))) = Inl workspace_already_exists"
proof -
  have h1: "scripted [json_response 409 JNull] (clock fresh) = Inr (json_response 409 JNull)
             \<and> status_code (json_response 409 JNull) = 409"
    by (simp add: fresh_simps scripted_simps json_response_def)
  have h2: "scripted [json_response 201 (JObj [(''id'', JStr ''w1'')]), json_response 409 JNull]
              (clock fresh) = Inr (json_response 201 (JObj [(''id'', JStr ''w1'')]))
            \<and> status_code (json_response 201 (JObj [(''id'', JStr ''w1'')])) = 201
            \<and> json_result (json_response 201 (JObj [(''id'', JStr ''w1'')]))
                = Inr (JObj [(''id'', JStr ''w1'')])
            \<and> scripted [json_response 201 (JObj [(''id'', JStr ''w1'')]), json_response 409 JNull]
              (Suc (clock fresh)) = Inr (json_response 409 JNull)
            \<and> status_code (json_response 409 JNull) = 409"
    by (simp add: fresh_simps scripted_simps json_response_def)
  show ?thesis
    using create_fabric_workspace_conflict[where http = "scripted [json_response 409 JNull]"
        and s = fresh and workspace_name = "''feature-ws''" and cpty_id = "''cap''"
        and token = "JStr ''tok''", THEN conjunct1, rule_format, OF h1]
      create_fabric_workspace_conflict[where s = fresh and workspace_name = "''feature-ws''"
        and cpty_id = "''cap''" and token = "JStr ''tok''"
        and http = "scripted [json_response 201 (JObj [(''id'', JStr ''w1'')]),
                              json_response 409 JNull]",
        THEN conjunct2, THEN conjunct1, rule_format, OF h2]
    by simp
qed

subsection \<open>Branches\<close>

text \<open>
  Claim C8. When the reference lookup fails at the transport level (the request raises a
  \<^verbatim>\<open>RequestException\<close>), \<^verbatim>\<open>branch_exists\<close> returns \<^verbatim>\<open>False\<close> and raises nothing; it
  returns \<^verbatim>\<open>True\<close> exactly when the lookup is answered with status 200.
\<close>

theorem branch_exists_lookup:
  "(\<forall>e. http (clock s) = Inl e \<and> is_RequestException e \<longrightarrow>
       fst (branch_exists http api owner repo_name branch_name token s) = Inr False)
   \<and> (fst (branch_exists http api owner repo_name branch_name token s) = Inr True
        \<longleftrightarrow> (\<exists>r. http (clock s) = Inr r \<and> status_code r = 200))"
  by (subst (1 2) branch_exists_def, subst (1 2) requests_get_eq)
     (auto simp: except_RequestException_def split: sum.splits)

theorem branch_exists_lookup_witness:
  "fst (branch_exists (\<lambda>i. Inl (RequestException ''connection refused'')) ''https://api.github.com''
          ''octo'' ''repo'' (Some ''feature'') ''pat'' fresh) = Inr False"
  using branch_exists_lookup[of "\<lambda>i. Inl (RequestException ''connection refused'')" fresh
      "''https://api.github.com''" "''octo''" "''repo''" "Some ''feature''" "''pat''"]
  by simp

lemma create_github_branch_no_token:
  "create_github_branch http api owner repo_name main_branch new_branch [] s =
     (Inl (ValueError [Lit ''GitHub PAT token is required to create branches.'']), s)"
  by (simp add: create_github_branch_def)

lemma create_github_branch_existing:
  assumes "token \<noteq> []" and "http (clock s) = Inr r" and "status_code r = 200"
  shows "fst (create_github_branch http api owner repo_name main_branch new_branch token s) = Inr ()"
    and "actions (snd (create_github_branch http api owner repo_name main_branch new_branch token s))
           = actions s @ [ref_lookup api owner repo_name (opt_str new_branch) token]"
    and "posts (snd (create_github_branch http api owner repo_name main_branch new_branch token s))
           = posts s"
    and "clock (snd (create_github_branch http api owner repo_name main_branch new_branch token s))
           = Suc (clock s)"
  using assms
  by (simp_all add: create_github_branch_def branch_exists_def requests_get_def
      except_RequestException_def ref_lookup_def actions_simps posts_simps clock_simps emit_simps)

lemma create_github_branch_creates:
  assumes "token \<noteq> []"
    and "http (clock s) = Inr r1" and "status_code r1 \<noteq> 200"
    and "http (Suc (clock s)) = Inr r2" and "raise_for_status r2 = Inr ()"
    and "json_result r2 = Inr j" and "py_getitem j ''object'' = Inr obj"
    and "py_getitem obj ''sha'' = Inr base_sha" and "truthy base_sha"
    and "http (Suc (Suc (clock s))) = Inr r3" and "raise_for_status r3 = Inr ()"
  shows "fst (create_github_branch http api owner repo_name main_branch new_branch token s) = Inr ()"
    and "posts (snd (create_github_branch http api owner repo_name main_branch new_branch token s))
           = posts s @ [ref_creation api owner repo_name new_branch base_sha token]"
    and "clock (snd (create_github_branch http api owner repo_name main_branch new_branch token s))
           = Suc (Suc (Suc (clock s)))"
  using assms
  by (simp_all add: create_github_branch_def branch_exists_def get_github_branch_sha_def
      requests_get_def requests_post_def Let_def
      except_RequestException_def ref_creation_def actions_simps posts_simps clock_simps emit_simps)

text \<open>
  Claim C4, as amended. \<^verbatim>\<open>create_github_branch\<close> learns that the new branch exists in one
  way only: its lookup of the branch is answered with status 200 (claim C8). When it
  is, no reference-creation request is issued, whatever the token; and with a token (the
  function rejects an empty one before it looks anything up) the call returns normally
  after that one lookup. Two calls in a row, the first finding no branch and creating
  it from the base commit, the second finding it, both return normally and issue one
  reference-creation request between them.
\<close>

theorem create_github_branch_idempotent:
  "(\<forall>r. http (clock s) = Inr r \<and> status_code r = 200 \<longrightarrow>
       posts (snd (create_github_branch http api owner repo_name main_branch new_branch token s))
         = posts s
       \<and> (token \<noteq> [] \<longrightarrow>
            fst (create_github_branch http api owner repo_name main_branch new_branch token s)
              = Inr ()
            \<and> actions (snd (create_github_branch http api owner repo_name main_branch new_branch
                              token s))
                = actions s @ [ref_lookup api owner repo_name (opt_str new_branch) token]))
   \<and> (\<forall>r1 r2 r3 r4 j obj base_sha.
         token \<noteq> []
         \<and> http (clock s) = Inr r1 \<and> status_code r1 \<noteq> 200
         \<and> http (Suc (clock s)) = Inr r2 \<and> raise_for_status r2 = Inr ()
         \<and> json_result r2 = Inr j \<and> py_getitem j ''object'' = Inr obj
         \<and> py_getitem obj ''sha'' = Inr base_sha \<and> truthy base_sha
         \<and> http (Suc (Suc (clock s))) = Inr r3 \<and> raise_for_status r3 = Inr ()
         \<and> http (Suc (Suc (Suc (clock s)))) = Inr r4 \<and> status_code r4 = 200 \<longrightarrow>
       fst (create_github_branch http api owner repo_name main_branch new_branch token s) = Inr ()
       \<and> fst (create_github_branch http api owner repo_name main_branch new_branch token
                (snd (create_github_branch http api owner repo_name main_branch new_branch token s)))
           = Inr ()
       \<and> posts (snd (create_github_branch http api owner repo_name main_branch new_branch token
                (snd (create_github_branch http api owner repo_name main_branch new_branch token s))))
           = posts s @ [ref_creation api owner repo_name new_branch base_sha token])"
proof (intro conjI allI impI)
  fix r assume h: "http (clock s) = Inr r \<and> status_code r = 200"
  show "posts (snd (create_github_branch http api owner repo_name main_branch new_branch token s))
         = posts s"
  proof (cases "token = []")
    case True
    then show ?thesis by (simp add: create_github_branch_no_token)
  next
    case False
    then show ?thesis using h create_github_branch_existing(3) by blast
  qed
  assume t: "token \<noteq> []"
  show "fst (create_github_branch http api owner repo_name main_branch new_branch token s) = Inr ()"
    using t h create_github_branch_existing(1) by blast
  show "actions (snd (create_github_branch http api owner repo_name main_branch new_branch token s))
                = actions s @ [ref_lookup api owner repo_name (opt_str new_branch) token]"
    using t h create_github_branch_existing(2) by blast
next
  fix r1 r2 r3 r4 j obj base_sha
  assume h: "token \<noteq> []
         \<and> http (clock s) = Inr r1 \<and> status_code r1 \<noteq> 200
         \<and> http (Suc (clock s)) = Inr r2 \<and> raise_for_status r2 = Inr ()
         \<and> json_result r2 = Inr j \<and> py_getitem j ''object'' = Inr obj
         \<and> py_getitem obj ''sha'' = Inr base_sha \<and> truthy base_sha
         \<and> http (Suc (Suc (clock s))) = Inr r3 \<and> raise_for_status r3 = Inr ()
         \<and> http (Suc (Suc (Suc (clock s)))) = Inr r4 \<and> status_code r4 = 200"
  let ?s1 = "snd (create_github_branch http api owner repo_name main_branch new_branch token s)"
  have first: "fst (create_github_branch http api owner repo_name main_branch new_branch token s) = Inr ()"
    "posts ?s1 = posts s @ [ref_creation api owner repo_name new_branch base_sha token]"
    "clock ?s1 = Suc (Suc (Suc (clock s)))"
    using h create_github_branch_creates[where http = http and s = s and ?r1.0 = r1 and ?r2.0 = r2
        and ?r3.0 = r3 and j = j and obj = obj and base_sha = base_sha and token = token]
    by simp_all
  have l: "http (clock ?s1) = Inr r4" using h first(3) by simp
  have second: "fst (create_github_branch http api owner repo_name main_branch new_branch token ?s1) = Inr ()"
    "posts (snd (create_github_branch http api owner repo_name main_branch new_branch token ?s1))
       = posts ?s1"
    using h l create_github_branch_existing[where http = http and s = ?s1 and r = r4 and token = token]
    by simp_all
  show "fst (create_github_branch http api owner repo_name main_branch new_branch token s) = Inr ()"
    by (rule first(1))
  show "fst (create_github_branch http api owner repo_name main_branch new_branch token ?s1) = Inr ()"
    by (rule second(1))
  show "posts (snd (create_github_branch http api owner repo_name main_branch new_branch token ?s1))
           = posts s @ [ref_creation api owner repo_name new_branch base_sha token]"
    using second(2) first(2) by simp
qed

theorem create_github_branch_idempotent_witness:
  "fst (create_github_branch (scripted [json_response 200 JNull]) ''https://api.github.com''
          ''octo'' ''repo'' ''main'' (Some ''feature'') ''pat'' fresh) = Inr ()
   \<and> posts (snd (create_github_branch (scripted [json_response 200 JNull]) ''https://api.github.com''
          ''octo'' ''repo'' ''main'' (Some ''feature'') ''pat'' fresh)) = []
   \<and> posts (snd (create_github_branch
        (scripted [json_response 404 JNull,
                   json_response 200 (JObj [(''object'', JObj [(''sha'', JStr ''abc123'')])]),
                   json_response 201 JNull, json_response 200 JNull])
        ''https://api.github.com'' ''octo'' ''repo'' ''main'' (Some ''feature'') ''pat''
        (snd (create_github_branch
          (scripted [json_response 404 JNull,
                     json_response 200 (JObj [(''object'', JObj [(''sha'', JStr ''abc123'')])]),
                     json_response 201 JNull, json_response 200 JNull])
          ''https://api.github.com'' ''octo'' ''repo'' ''main'' (Some ''feature'') ''pat'' fresh))))
      = [ref_creation ''https://api.github.com'' ''octo'' ''repo'' (Some ''feature'')
           (JStr ''abc123'') ''pat'']"
proof -
  let ?w = "scripted [json_response 404 JNull,
                   json_response 200 (JObj [(''object'', JObj [(''sha'', JStr ''abc123'')])]),
                   json_response 201 JNull, json_response 200 JNull]"
  have h: "scripted [json_response 200 JNull] (clock fresh) = Inr (json_response 200 JNull)
             \<and> status_code (json_response 200 JNull) = 200"
    by (simp add: fresh_simps scripted_simps json_response_def)
  have t: "''pat'' \<noteq> []" by simp
  have h2: "''pat'' \<noteq> []
         \<and> ?w (clock fresh) = Inr (json_response 404 JNull)
         \<and> status_code (json_response 404 JNull) \<noteq> 200
         \<and> ?w (Suc (clock fresh))
             = Inr (json_response 200 (JObj [(''object'', JObj [(''sha'', JStr ''abc123'')])]))
         \<and> raise_for_status (json_response 200 (JObj [(''object'', JObj [(''sha'', JStr ''abc123'')])]))
             = Inr ()
         \<and> json_result (json_response 200 (JObj [(''object'', JObj [(''sha'', JStr ''abc123'')])]))
             = Inr (JObj [(''object'', JObj [(''sha'', JStr ''abc123'')])])
         \<and> py_getitem (JObj [(''object'', JObj [(''sha'', JStr ''abc123'')])]) ''object''
             = Inr (JObj [(''sha'', JStr ''abc123'')])
         \<and> py_getitem (JObj [(''sha'', JStr ''abc123'')]) ''sha'' = Inr (JStr ''abc123'')
         \<and> truthy (JStr ''abc123'')
         \<and> ?w (Suc (Suc (clock fresh))) = Inr (json_response 201 JNull)
         \<and> raise_for_status (json_response 201 JNull) = Inr ()
         \<and> ?w (Suc (Suc (Suc (clock fresh)))) = Inr (json_response 200 JNull)
         \<and> status_code (json_response 200 JNull) = 200"
    by (simp add: fresh_simps scripted_simps json_response_def raise_for_status_def)
  show ?thesis
    using create_github_branch_idempotent[where http = "scripted [json_response 200 JNull]"
        and s = fresh and token = "''pat''", THEN conjunct1, rule_format, OF h]
      create_github_branch_idempotent[where http = ?w and s = fresh and token = "''pat''",
        THEN conjunct2, rule_format, OF h2]
      t by (simp add: fresh_simps)
qed


text \<open>
  Claim C4 as stated, for every repository state in which the new branch exists, fails.
  The branch may exist while its lookup times out, or is answered 403: \<^verbatim>\<open>branch_exists\<close>
  then gives \<^verbatim>\<open>False\<close>, the function resolves the base commit and issues the
  reference-creation request, and the provider's refusal (422) is raised. And with an
  empty token the function raises before any lookup, also when the lookup would be
  answered 200.
\<close>

theorem create_github_branch_lookup_failed_counterexample:
  "fst (create_github_branch
          (replayed [Inl (RequestException ''connection timed out''),
                     Inr (json_response 200 (JObj [(''object'', JObj [(''sha'', JStr ''abc123'')])])),
                     Inr (json_response 422 JNull)])
          ''https://api.github.com'' ''octo'' ''repo'' ''main'' (Some ''feature'') ''pat'' fresh)
     = Inl (HTTPError 422)
   \<and> posts (snd (create_github_branch
          (replayed [Inl (RequestException ''connection timed out''),
                     Inr (json_response 200 (JObj [(''object'', JObj [(''sha'', JStr ''abc123'')])])),
                     Inr (json_response 422 JNull)])
          ''https://api.github.com'' ''octo'' ''repo'' ''main'' (Some ''feature'') ''pat'' fresh))
     = [ref_creation ''https://api.github.com'' ''octo'' ''repo'' (Some ''feature'')
          (JStr ''abc123'') ''pat'']
   \<and> fst (create_github_branch
          (scripted [json_response 403 JNull,
                     json_response 200 (JObj [(''object'', JObj [(''sha'', JStr ''abc123'')])]),
                     json_response 422 JNull])
          ''https://api.github.com'' ''octo'' ''repo'' ''main'' (Some ''feature'') ''pat'' fresh)
     = Inl (HTTPError 422)
   \<and> posts (snd (create_github_branch
          (scripted [json_response 403 JNull,
                     json_response 200 (JObj [(''object'', JObj [(''sha'', JStr ''abc123'')])]),
                     json_response 422 JNull])
          ''https://api.github.com'' ''octo'' ''repo'' ''main'' (Some ''feature'') ''pat'' fresh))
     = [ref_creation ''https://api.github.com'' ''octo'' ''repo'' (Some ''feature'')
          (JStr ''abc123'') ''pat'']
   \<and> fst (create_github_branch (scripted [json_response 200 JNull])
          ''https://api.github.com'' ''octo'' ''repo'' ''main'' (Some ''feature'') [] fresh)
     = Inl (ValueError [Lit ''GitHub PAT token is required to create branches.''])"
proof -
  have p: "posts \<lparr>clock = k, events = []\<rparr> = []" for k
    by (simp add: posts_def)
  show ?thesis
    by (simp add: create_github_branch_def branch_exists_def get_github_branch_sha_def
        requests_get_def requests_post_def except_RequestException_def raise_for_status_def
        json_response_def scripted_simps replayed_simps emit_simps posts_simps clock_simps
        Let_def ref_creation_def fresh_def p)
qed

subsection \<open>Connections\<close>

lemma find_connection_reuse:
  assumes "\<forall>x\<in>set pre. is_object x \<and> \<not> reusable connection_name x"
    and "reusable connection_name (JObj c)"
  shows "find_connection (pre @ JObj c # post) connection_name s =
           (Inr (Some (entry_id c)),
            logging_info ''Found existing GitHub connection '%s' with ID: %s''
              [V (JStr connection_name), V (entry_id c)] s)"
  using assms
proof (induction pre)
  case Nil
  then show ?case by (simp add: entry_id_def)
next
  case (Cons x pre)
  then obtain kv where x: "x = JObj kv" by (cases x) auto
  have "\<not> reusable connection_name (JObj kv)" using Cons.prems(1) x by simp
  then have skip: "find_connection (JObj kv # rest) connection_name s
      = find_connection rest connection_name s" for rest
    by (auto simp: entry_id_def split: option.splits)
  show ?case using Cons x skip by simp
qed

lemma list_connections_ok:
  assumes "http (clock s) = Inr r" and "raise_for_status r = Inr ()"
    and "json_result r = Inr data"
    and "data = JArr L \<or> (\<exists>kvs. data = JObj kvs \<and> map_of kvs ''value'' = Some (JArr L))"
  shows "list_connections http token s =
           (Inr (JArr L), emit (connections_lookup token) (s\<lparr>clock := Suc (clock s)\<rparr>))"
  using assms
  by (auto simp: list_connections_def requests_get_def except_RequestException_def
      connections_lookup_def)

lemma get_or_create_reuse:
  assumes "pat_token \<noteq> []"
    and "http (clock s) = Inr r" and "raise_for_status r = Inr ()"
    and "json_result r = Inr data"
    and "data = JArr (pre @ JObj c # post)
         \<or> (\<exists>kvs. data = JObj kvs \<and> map_of kvs ''value'' = Some (JArr (pre @ JObj c # post)))"
    and "\<forall>x\<in>set pre. is_object x \<and> \<not> reusable connection_name x"
    and "reusable connection_name (JObj c)"
  shows "fst (get_or_create_github_pat_connection http connection_name pat_token token s)
           = Inr (entry_id c)"
    and "actions (snd (get_or_create_github_pat_connection http connection_name pat_token token s))
           = actions s @ [connections_lookup token]"
    and "posts (snd (get_or_create_github_pat_connection http connection_name pat_token token s))
           = posts s"
    and "clock (snd (get_or_create_github_pat_connection http connection_name pat_token token s))
           = Suc (clock s)"
  using assms(1) list_connections_ok[where http = http and s = s and token = token, OF assms(2-5)]
    find_connection_reuse[OF assms(6,7)]
  by (simp_all add: get_or_create_github_pat_connection_def actions_simps posts_simps clock_simps
      emit_simps connections_lookup_def)

text \<open>
  Claim C6, as amended. Let the resolver be called with a PAT token, and let the
  connection list the provider returns (bare, or under \<^verbatim>\<open>"value"\<close>) consist, up to and
  including its first reusable entry, of objects: a reusable entry is one whose display
  name equals the requested name and whose id is present and not empty. Then
  \<^verbatim>\<open>get_or_create_github_pat_connection\<close> returns the id of that first reusable entry
  and issues no creation request; entries with the requested name but no id are passed
  over. A second call answered with the same list returns the same id, and still
  nothing has been created.
\<close>

theorem connection_reuse_first_usable:
  assumes "pat_token \<noteq> []"
    and "http (clock s) = Inr r" and "raise_for_status r = Inr ()"
    and "json_result r = Inr data"
    and "data = JArr (pre @ JObj c # post)
         \<or> (\<exists>kvs. data = JObj kvs \<and> map_of kvs ''value'' = Some (JArr (pre @ JObj c # post)))"
    and "\<forall>x\<in>set pre. is_object x \<and> \<not> reusable connection_name x"
    and "reusable connection_name (JObj c)"
  shows "fst (get_or_create_github_pat_connection http connection_name pat_token token s)
           = Inr (entry_id c)
         \<and> posts (snd (get_or_create_github_pat_connection http connection_name pat_token token s))
           = posts s
         \<and> (http (Suc (clock s)) = Inr r \<longrightarrow>
              fst (get_or_create_github_pat_connection http connection_name pat_token token
                    (snd (get_or_create_github_pat_connection http connection_name pat_token
                            token s)))
                = Inr (entry_id c)
              \<and> posts (snd (get_or_create_github_pat_connection http connection_name pat_token token
                    (snd (get_or_create_github_pat_connection http connection_name pat_token
                            token s))))
                = posts s)"
proof -
  let ?s1 = "snd (get_or_create_github_pat_connection http connection_name pat_token token s)"
  note first = get_or_create_reuse[where http = http and s = s and token = token, OF assms]
  have "fst (get_or_create_github_pat_connection http connection_name pat_token token ?s1)
          = Inr (entry_id c)
        \<and> posts (snd (get_or_create_github_pat_connection http connection_name pat_token token ?s1))
          = posts s" if again: "http (Suc (clock s)) = Inr r"
  proof -
    have l: "http (clock ?s1) = Inr r" using again first(4) by simp
    note second = get_or_create_reuse[where http = http and s = ?s1 and token = token,
        OF assms(1) l assms(3-7)]
    show ?thesis using second(1,3) first(3) by simp
  qed
  then show ?thesis using first(1,3) by blast
qed

theorem connection_reuse_first_usable_witness:
  "fst (get_or_create_github_pat_connection
          (scripted [json_response 200 (JObj [(''value'', JArr
                       [JObj [(''displayName'', JStr ''other''), (''id'', JStr ''c0'')],
                        JObj [(''displayName'', JStr ''GitHub PAT - octo/repo'')],
                        JObj [(''displayName'', JStr ''GitHub PAT - octo/repo''), (''id'', JStr ''c1'')],
                        JObj [(''displayName'', JStr ''GitHub PAT - octo/repo''), (''id'', JStr ''c2'')]])])])
          ''GitHub PAT - octo/repo'' ''pat'' (JStr ''tok'') fresh) = Inr (JStr ''c1'')
   \<and> posts (snd (get_or_create_github_pat_connection
          (scripted [json_response 200 (JObj [(''value'', JArr
                       [JObj [(''displayName'', JStr ''other''), (''id'', JStr ''c0'')],
                        JObj [(''displayName'', JStr ''GitHub PAT - octo/repo'')],
                        JObj [(''displayName'', JStr ''GitHub PAT - octo/repo''), (''id'', JStr ''c1'')],
                        JObj [(''displayName'', JStr ''GitHub PAT - octo/repo''), (''id'', JStr ''c2'')]])])])
          ''GitHub PAT - octo/repo'' ''pat'' (JStr ''tok'') fresh)) = []"
proof -
  let ?pre = "[JObj [(''displayName'', JStr ''other''), (''id'', JStr ''c0'')],
               JObj [(''displayName'', JStr ''GitHub PAT - octo/repo'')]]"
  let ?c = "[(''displayName'', JStr ''GitHub PAT - octo/repo''), (''id'', JStr ''c1'')]"
  let ?post = "[JObj [(''displayName'', JStr ''GitHub PAT - octo/repo''), (''id'', JStr ''c2'')]]"
  let ?data = "JObj [(''value'', JArr (?pre @ JObj ?c # ?post))]"
  have h1: "''pat'' \<noteq> []" by simp
  have h2: "scripted [json_response 200 ?data] (clock fresh) = Inr (json_response 200 ?data)"
    by (simp add: fresh_simps scripted_simps)
  have h3: "raise_for_status (json_response 200 ?data) = Inr ()"
    by (simp add: raise_for_status_def json_response_def)
  have h4: "json_result (json_response 200 ?data) = Inr ?data"
    by (simp add: json_response_def)
  have h5: "?data = JArr (?pre @ JObj ?c # ?post)
         \<or> (\<exists>kvs. ?data = JObj kvs \<and> map_of kvs ''value'' = Some (JArr (?pre @ JObj ?c # ?post)))"
    by simp
  have h6: "\<forall>x\<in>set ?pre. is_object x \<and> \<not> reusable ''GitHub PAT - octo/repo'' x"
    by (simp add: entry_id_def)
  have h7: "reusable ''GitHub PAT - octo/repo'' (JObj ?c)"
    by (simp add: entry_id_def)
  have e: "entry_id ?c = JStr ''c1''" by (simp add: entry_id_def)
  show ?thesis
    using connection_reuse_first_usable[where http = "scripted [json_response 200 ?data]"
        and s = fresh and token = "JStr ''tok''", OF h1 h2 h3 h4 h5 h6 h7]
    by (simp add: e fresh_simps)
qed

text \<open>
  Claim C6 as stated fails. A list whose only entry has the requested display name and
  no id makes the resolver issue a creation request and return the created id; and when
  the first entry with the requested name has an empty id, the id returned is that of a
  later entry.
\<close>

theorem connection_first_match_counterexample:
  "named ''GitHub PAT - octo/repo'' (JObj [(''displayName'', JStr ''GitHub PAT - octo/repo'')])
   \<and> fst (get_or_create_github_pat_connection
          (scripted [json_response 200 (JArr [JObj [(''displayName'', JStr ''GitHub PAT - octo/repo'')]]),
                     json_response 201 (JObj [(''id'', JStr ''created'')])])
          ''GitHub PAT - octo/repo'' ''pat'' (JStr ''tok'') fresh) = Inr (JStr ''created'')
   \<and> posts (snd (get_or_create_github_pat_connection
          (scripted [json_response 200 (JArr [JObj [(''displayName'', JStr ''GitHub PAT - octo/repo'')]]),
                     json_response 201 (JObj [(''id'', JStr ''created'')])])
          ''GitHub PAT - octo/repo'' ''pat'' (JStr ''tok'') fresh))
       = [connection_creation ''GitHub PAT - octo/repo'' ''pat'' (JStr ''tok'')]
   \<and> fst (get_or_create_github_pat_connection
          (scripted [json_response 200 (JArr
                       [JObj [(''displayName'', JStr ''GitHub PAT - octo/repo''), (''id'', JStr '''')],
                        JObj [(''displayName'', JStr ''GitHub PAT - octo/repo''), (''id'', JStr ''c2'')]])])
          ''GitHub PAT - octo/repo'' ''pat'' (JStr ''tok'') fresh) = Inr (JStr ''c2'')"
proof -
  have p: "posts \<lparr>clock = k, events = []\<rparr> = []" for k
    by (simp add: posts_def)
  show ?thesis
    by (simp add: get_or_create_github_pat_connection_def list_connections_def requests_get_def
        requests_post_def except_RequestException_def raise_for_status_def json_response_def
        scripted_simps emit_simps posts_simps clock_simps Let_def connection_creation_def
        fresh_def p)
qed

subsection \<open>Connecting the branch\<close>

lemma reusable_truthy: "reusable connection_name (JObj c) \<Longrightarrow> truthy (entry_id c)"
  by simp

lemma connect_unexpected_status:
  assumes "gh_pat_token \<noteq> []"
    and "http (clock s) = Inr r" and "raise_for_status r = Inr ()"
    and "json_result r = Inr data"
    and "data = JArr (pre @ JObj c # post)
         \<or> (\<exists>kvs. data = JObj kvs \<and> map_of kvs ''value'' = Some (JArr (pre @ JObj c # post)))"
    and "\<forall>x\<in>set pre. is_object x \<and> \<not> reusable (''GitHub PAT - '' @ org_name @ ''/'' @ repo_name) x"
    and "reusable (''GitHub PAT - '' @ org_name @ ''/'' @ repo_name) (JObj c)"
    and "http (Suc (clock s)) = Inr r2" and "status_code r2 \<noteq> 200"
    and "raise_for_status r2 = Inr ()"
  shows "fst (connect_branch_to_workspace http gh_pat_token workspace_id org_name repo_name
                branch_name git_folder token s) = Inr ()"
    and "last (events (snd (connect_branch_to_workspace http gh_pat_token workspace_id org_name
                repo_name branch_name git_folder token s)))
           = Log INFO ''Workspace connected to GitHub branch'' []"
    and "last (butlast (events (snd (connect_branch_to_workspace http gh_pat_token workspace_id
                org_name repo_name branch_name git_folder token s))))
           = Log ERROR ''Git connect failed: %s - %s''
               [V (JInt (status_code r2)), V (JStr (resp_text r2))]"
proof -
  define s1 where "s1 = logging_info ''Connecting workspace %s to GitHub branch %s at folder %s''
                   [V workspace_id, V (opt_str branch_name), V (JStr git_folder)] s"
  have c1: "clock s1 = clock s" by (simp add: s1_def clock_simps)
  have l: "http (clock s1) = Inr r" using assms(2) c1 by simp
  note goc = get_or_create_reuse[where http = http and s = s1 and token = token,
      OF assms(1) l assms(3-7)]
  obtain res s2 where g: "get_or_create_github_pat_connection http
      (''GitHub PAT - '' @ org_name @ ''/'' @ repo_name) gh_pat_token token s1 = (res, s2)"
    by (cases "get_or_create_github_pat_connection http
      (''GitHub PAT - '' @ org_name @ ''/'' @ repo_name) gh_pat_token token s1")
  have res: "res = Inr (entry_id c)" and c2: "clock s2 = Suc (clock s)"
    using goc(1,4) g c1 by simp_all
  have t: "truthy (entry_id c)" using assms(7) by (rule reusable_truthy)
  have p: "http (clock s2) = Inr r2" using assms(8) c2 by simp
  show "fst (connect_branch_to_workspace http gh_pat_token workspace_id org_name repo_name
                branch_name git_folder token s) = Inr ()"
    unfolding connect_branch_to_workspace_def Let_def s1_def[symmetric] g res
    using assms(9,10) t p
    by (simp add: requests_post_def except_RequestException_def)
  show "last (events (snd (connect_branch_to_workspace http gh_pat_token workspace_id org_name
                repo_name branch_name git_folder token s)))
           = Log INFO ''Workspace connected to GitHub branch'' []"
    unfolding connect_branch_to_workspace_def Let_def s1_def[symmetric] g res
    using assms(9,10) t p
    by (simp add: requests_post_def except_RequestException_def logging_info_def
        logging_error_def emit_def)
  show "last (butlast (events (snd (connect_branch_to_workspace http gh_pat_token workspace_id
                org_name repo_name branch_name git_folder token s))))
           = Log ERROR ''Git connect failed: %s - %s''
               [V (JInt (status_code r2)), V (JStr (resp_text r2))]"
    unfolding connect_branch_to_workspace_def Let_def s1_def[symmetric] g res
    using assms(9,10) t p
    by (simp add: requests_post_def except_RequestException_def logging_info_def
        logging_error_def emit_def butlast_append)
qed

text \<open>
  Claim C2, on the code. The connect request is answered with a status that is neither
  200 nor an error status of \<^verbatim>\<open>raise_for_status\<close> (here 304, and 202): the function logs
  \<^verbatim>\<open>Git connect failed\<close>, \<^verbatim>\<open>raise_for_status\<close> raises nothing, and the function logs
  \<^verbatim>\<open>Workspace connected to GitHub branch\<close> and returns normally, where the claim has it
  raise.
\<close>

theorem connect_unexpected_status_returns:
  "fst (connect_branch_to_workspace
          (scripted [json_response 200 (JArr [JObj [(''displayName'', JStr ''GitHub PAT - octo/repo''),
                                                   (''id'', JStr ''c1'')]]),
                     json_response 304 JNull])
          ''pat'' (JStr ''ws1'') ''octo'' ''repo'' (Some ''feature'') ''/'' (JStr ''tok'') fresh)
     = Inr ()
   \<and> last (butlast (events (snd (connect_branch_to_workspace
          (scripted [json_response 200 (JArr [JObj [(''displayName'', JStr ''GitHub PAT - octo/repo''),
                                                   (''id'', JStr ''c1'')]]),
                     json_response 304 JNull])
          ''pat'' (JStr ''ws1'') ''octo'' ''repo'' (Some ''feature'') ''/'' (JStr ''tok'') fresh))))
     = Log ERROR ''Git connect failed: %s - %s'' [V (JInt 304), V (JStr [])]
   \<and> last (events (snd (connect_branch_to_workspace
          (scripted [json_response 200 (JArr [JObj [(''displayName'', JStr ''GitHub PAT - octo/repo''),
                                                   (''id'', JStr ''c1'')]]),
                     json_response 304 JNull])
          ''pat'' (JStr ''ws1'') ''octo'' ''repo'' (Some ''feature'') ''/'' (JStr ''tok'') fresh)))
     = Log INFO ''Workspace connected to GitHub branch'' []
   \<and> fst (connect_branch_to_workspace
          (scripted [json_response 200 (JArr [JObj [(''displayName'', JStr ''GitHub PAT - octo/repo''),
                                                   (''id'', JStr ''c1'')]]),
                     json_response 202 JNull])
          ''pat'' (JStr ''ws1'') ''octo'' ''repo'' (Some ''feature'') ''/'' (JStr ''tok'') fresh)
     = Inr ()"
proof -
  let ?c = "[(''displayName'', JStr ''GitHub PAT - octo/repo''), (''id'', JStr ''c1'')]"
  let ?data = "JArr [JObj ?c]"
  have h1: "''pat'' \<noteq> []" by simp
  have h2: "scripted [json_response 200 ?data, x] (clock fresh) = Inr (json_response 200 ?data)" for x
    by (simp add: fresh_simps scripted_simps)
  have h3: "raise_for_status (json_response 200 ?data) = Inr ()"
    by (simp add: raise_for_status_def json_response_def)
  have h4: "json_result (json_response 200 ?data) = Inr ?data"
    by (simp add: json_response_def)
  have h5: "?data = JArr ([] @ JObj ?c # [])
         \<or> (\<exists>kvs. ?data = JObj kvs \<and> map_of kvs ''value'' = Some (JArr ([] @ JObj ?c # [])))"
    by simp
  have h6: "\<forall>x\<in>set []. is_object x \<and> \<not> reusable (''GitHub PAT - '' @ ''octo'' @ ''/'' @ ''repo'') x"
    by simp
  have h7: "reusable (''GitHub PAT - '' @ ''octo'' @ ''/'' @ ''repo'') (JObj ?c)"
    by (simp add: entry_id_def)
  have h8: "scripted [json_response 200 ?data, x] (Suc (clock fresh)) = Inr x" for x
    by (simp add: fresh_simps scripted_simps)
  have h9: "status_code (json_response 304 JNull) \<noteq> 200" "status_code (json_response 202 JNull) \<noteq> 200"
    by (simp_all add: json_response_def)
  have h10: "raise_for_status (json_response 304 JNull) = Inr ()"
    "raise_for_status (json_response 202 JNull) = Inr ()"
    by (simp_all add: raise_for_status_def json_response_def)
  note a = connect_unexpected_status[where s = fresh and token = "JStr ''tok''"
      and http = "scripted [json_response 200 ?data, json_response 304 JNull]"
      and workspace_id = "JStr ''ws1''" and branch_name = "Some ''feature''" and git_folder = "''/''",
      OF h1 h2 h3 h4 h5 h6 h7 h8 h9(1) h10(1)]
  note b = connect_unexpected_status[where s = fresh and token = "JStr ''tok''"
      and http = "scripted [json_response 200 ?data, json_response 202 JNull]"
      and workspace_id = "JStr ''ws1''" and branch_name = "Some ''feature''" and git_folder = "''/''",
      OF h1 h2 h3 h4 h5 h6 h7 h8 h9(2) h10(2)]
  have sc: "status_code (json_response 304 JNull) = 304" "resp_text (json_response 304 JNull) = []"
    by (simp_all add: json_response_def)
  show ?thesis using a b(1) by (simp add: sc)
qed

subsection \<open>The run\<close>

lemma requests_made_simps:
  "requests_made (logging_info m a s) = requests_made s"
  "requests_made (logging_error m a s) = requests_made s"
  "requests_made (emit (AcquireToken au c u p) s) = requests_made s"
  by (simp_all add: requests_made_def logging_info_def logging_error_def emit_def)

lemma set_main_parameters_quiet:
  "clock (snd (set_main_parameters argv g s)) = clock s"
  "requests_made (snd (set_main_parameters argv g s)) = requests_made s"
  by (simp_all add: set_main_parameters_def clock_simps requests_made_simps split: parse_outcome.splits)

lemma fabric_token_quiet:
  "clock (snd (fabric_token msal g s)) = clock s"
  "requests_made (snd (fabric_token msal g s)) = requests_made s"
  by (simp_all add: fabric_token_def acquire_token_user_id_password_def Let_def clock_simps
      requests_made_simps emit_simps split: sum.splits option.splits)

lemma fabric_token_none:
  assumes "FABRIC_TOKEN g = []" and "\<not> token_obtained msal"
  shows "case fst (fabric_token msal g s) of Inl e \<Rightarrow> True | Inr token \<Rightarrow> \<not> truthy token"
  using assms
  by (simp add: fabric_token_def acquire_token_user_id_password_def Let_def token_obtained_def
      split: sum.splits option.splits)

text \<open>
  Claim C9. When the command line gives no PAT token (it is empty; a command line that
  does not parse at all is covered too), or when no Fabric token is provided and the
  identity library yields none, \<^verbatim>\<open>main\<close> ends with an error and has issued no HTTP
  request: no workspace creation, admin grant, branch lookup or creation, connect or
  git-initialize call.
\<close>

theorem main_aborts_before_provisioning:
  assumes "\<forall>a. argv = Parsed a \<longrightarrow>
             arg_GH_PAT_TOKEN a = [] \<or> (arg_FABRIC_TOKEN a = [] \<and> \<not> token_obtained msal)"
  shows "\<exists>e s'. main argv msal http s = Some (Inl e, s')
           \<and> requests_made s' = requests_made s \<and> clock s' = clock s"
proof -
  define s0 where "s0 = logging_info ''Starting branch-out main flow...'' [] s"
  have q0: "clock s0 = clock s" "requests_made s0 = requests_made s"
    by (simp_all add: s0_def clock_simps requests_made_simps)
  obtain p s1 where p: "set_main_parameters argv initial_globals s0 = (p, s1)"
    by (cases "set_main_parameters argv initial_globals s0")
  have q1: "clock s1 = clock s" "requests_made s1 = requests_made s"
    using set_main_parameters_quiet[of argv initial_globals s0] p q0 by simp_all
  show ?thesis
  proof (cases p)
    case (Inl e)
    then have "main argv msal http s = Some (Inl e, s1)"
      by (simp add: main_def Let_def s0_def[symmetric] p)
    then show ?thesis using q1 by blast
  next
    case (Inr g)
    then obtain a where a: "argv = Parsed a" and g: "GH_PAT_TOKEN g = arg_GH_PAT_TOKEN a"
        "FABRIC_TOKEN g = arg_FABRIC_TOKEN a"
      using p by (cases argv) (auto simp: set_main_parameters_def)
    show ?thesis
    proof (cases "GH_PAT_TOKEN g = []")
      case True
      then have "main argv msal http s = Some
          (Inl (ValueError [Lit ''GitHub PAT token was not provided. Set --GH_PAT_TOKEN.'']), s1)"
        by (simp add: main_def Let_def s0_def[symmetric] p Inr)
      then show ?thesis using q1 by blast
    next
      case False
      then have no: "FABRIC_TOKEN g = []" "\<not> token_obtained msal"
        using assms a g by auto
      obtain t s2 where t: "fabric_token msal g s1 = (t, s2)"
        by (cases "fabric_token msal g s1")
      have q2: "clock s2 = clock s" "requests_made s2 = requests_made s"
        using fabric_token_quiet[of msal g s1] t q1 by simp_all
      have tn: "case t of Inl e \<Rightarrow> True | Inr token \<Rightarrow> \<not> truthy token"
        using fabric_token_none[OF no, of s1] t by simp
      show ?thesis
      proof (cases t)
        case (Inl e)
        then have "main argv msal http s = Some (Inl e, s2)"
          using False by (simp add: main_def Let_def s0_def[symmetric] p Inr t)
        then show ?thesis using q2 by blast
      next
        case (Inr token)
        then have "\<not> truthy token" using tn by simp
        then have "main argv msal http s = Some
            (Inl (ValueError
               [Lit ''Could not generate authentication token. Please review the debug logs.'']),
             logging_error
               ''Terminating branch out process due to Fabric credential error. Provide a valid token or use a service account without MFA.''
               [] s2)"
          using False Inr by (simp add: main_def Let_def s0_def[symmetric] p \<open>p = Inr g\<close> t)
        then show ?thesis using q2 by (auto simp: clock_simps requests_made_simps)
      qed
    qed
  qed
qed

theorem main_aborts_before_provisioning_witness:
  "(\<exists>e s'. main (Parsed (example_args\<lparr>arg_GH_PAT_TOKEN := []\<rparr>)) (Inr [(''access_token'', JStr ''t'')])
              (scripted []) fresh = Some (Inl e, s') \<and> requests_made s' = [] \<and> clock s' = 0)
   \<and> (\<exists>e s'. main (Parsed example_args) (Inr [(''error'', JStr ''invalid_grant'')])
              (scripted []) fresh = Some (Inl e, s') \<and> requests_made s' = [] \<and> clock s' = 0)"
proof -
  have r: "requests_made fresh = []" by (simp add: requests_made_def fresh_def)
  have h1: "\<forall>a. Parsed (example_args\<lparr>arg_GH_PAT_TOKEN := []\<rparr>) = Parsed a \<longrightarrow>
             arg_GH_PAT_TOKEN a = []
             \<or> (arg_FABRIC_TOKEN a = [] \<and> \<not> token_obtained (Inr [(''access_token'', JStr ''t'')]))"
    by auto
  have h2: "\<forall>a. Parsed example_args = Parsed a \<longrightarrow>
             arg_GH_PAT_TOKEN a = []
             \<or> (arg_FABRIC_TOKEN a = [] \<and> \<not> token_obtained (Inr [(''error'', JStr ''invalid_grant'')]))"
    by (auto simp: example_args_def token_obtained_def)
  show ?thesis
    using main_aborts_before_provisioning[OF h1, of "scripted []" fresh]
      main_aborts_before_provisioning[OF h2, of "scripted []" fresh]
    by (simp add: r fresh_simps)
qed


end
